theory Spec2Isabelle
  imports Main
begin

section \<open>Strings\<close>

text \<open>
  A Python \<open>str\<close> is modelled as a \<open>string\<close> whose characters are code points below 256.
  \<open>lower\<close>, \<open>strip\<close>, \<open>split\<close>, \<open>replace\<close>, \<open>startswith\<close> and the substring test
  \<open>in\<close> are written out on that alphabet.
\<close>

definition char_lower :: "char \<Rightarrow> char" where
  "char_lower c =
     (let n = (of_char c :: nat)
      in if (65 \<le> n \<and> n \<le> 90) \<or> (192 \<le> n \<and> n \<le> 214) \<or> (216 \<le> n \<and> n \<le> 222)
         then char_of (n + 32) else c)"

definition lower :: "string \<Rightarrow> string" where
  "lower s = map char_lower s"

text \<open>\<open>s.split(c)\<close> for a one-character separator: never the empty list.\<close>

fun split_on :: "char \<Rightarrow> string \<Rightarrow> string list" where
  "split_on c [] = [[]]"
| "split_on c (x # xs) =
     (if x = c then [] # split_on c xs
      else (case split_on c xs of [] \<Rightarrow> [[x]] | p # ps \<Rightarrow> (x # p) # ps))"

definition is_space :: "char \<Rightarrow> bool" where
  "is_space c =
     (let n = (of_char c :: nat)
      in (9 \<le> n \<and> n \<le> 13) \<or> (28 \<le> n \<and> n \<le> 32) \<or> n = 133 \<or> n = 160)"

definition strip :: "string \<Rightarrow> string" where
  "strip s = rev (dropWhile is_space (rev (dropWhile is_space s)))"

text \<open>\<open>s.replace(c, t)\<close> for a one-character pattern \<open>c\<close>.\<close>

definition replace_char :: "char \<Rightarrow> string \<Rightarrow> string \<Rightarrow> string" where
  "replace_char c t s = concat (map (\<lambda>x. if x = c then t else [x]) s)"

fun startswith :: "string \<Rightarrow> string \<Rightarrow> bool" where
  "startswith s [] = True"
| "startswith [] (p # ps) = False"
| "startswith (x # xs) (p # ps) = (x = p \<and> startswith xs ps)"

text \<open>\<open>p in s\<close> on two strings.\<close>

fun str_contains :: "string \<Rightarrow> string \<Rightarrow> bool" where
  "str_contains [] p = (p = [])"
| "str_contains (x # xs) p = (startswith (x # xs) p \<or> str_contains xs p)"

text \<open>\<open>str(n)\<close> for a non-negative integer.\<close>

fun string_of_nat :: "nat \<Rightarrow> string" where
  "string_of_nat n =
     (if n < 10 then [char_of (48 + n)]
      else string_of_nat (n div 10) @ [char_of (48 + n mod 10)])"

declare string_of_nat.simps [simp del]

definition newline :: char where
  "newline = CHR 0x0A"

section \<open>Run-time values\<close>

text \<open>
  What \<open>json.loads\<close> returns. Of a number only its truthiness is ever inspected by the
  handlers, so integers stand for all numbers. An object is its list of members in the
  order they were added; the last binding of a key is the one a lookup sees.
\<close>

datatype json =
    JNull
  | JBool bool
  | JNum int
  | JStr string
  | JList "json list"
  | JObj "(string \<times> json) list"

fun truthy :: "json \<Rightarrow> bool" where
  "truthy JNull = False"
| "truthy (JBool b) = b"
| "truthy (JNum n) = (n \<noteq> 0)"
| "truthy (JStr s) = (s \<noteq> [])"
| "truthy (JList xs) = (xs \<noteq> [])"
| "truthy (JObj kvs) = (kvs \<noteq> [])"

definition lookup :: "(string \<times> json) list \<Rightarrow> string \<Rightarrow> json option" where
  "lookup kvs k = map_of (rev kvs) k"

record http_error =
  status_code :: nat
  detail :: string

text \<open>
  Exceptions. \<open>py_error\<close> are the ones Python and the libraries raise on their own;
  \<open>HTTPException\<close> is the one the handlers raise, \<open>HTTPStatusError\<close> the one
  \<open>response.raise_for_status()\<close> raises, with the status and the text of the response.
\<close>

datatype py_error =
    KeyError string
  | TypeError
  | AttributeError
  | IndexError
  | LibraryError string

datatype exn =
    HTTPException http_error
  | HTTPStatusError nat string
  | Other py_error

section \<open>Datasets\<close>

text \<open>
  A dataframe: its columns in order, each with the kind of its dtype, and its rows; a cell
  is \<open>None\<close> when the value is missing.
\<close>

datatype dtype = Number | Object | Category | OtherDtype

record dataframe =
  df_columns :: "(string \<times> dtype) list"
  df_records :: "string option list list"

definition columns_of :: "dataframe \<Rightarrow> string list" where
  "columns_of d = map fst (df_columns d)"

text \<open>\<open>df.select_dtypes(include=[...]).columns\<close>\<close>

definition select_dtypes :: "dtype list \<Rightarrow> dataframe \<Rightarrow> string list" where
  "select_dtypes kinds d = map fst (filter (\<lambda>(c, t). t \<in> set kinds) (df_columns d))"

definition numeric_columns :: "dataframe \<Rightarrow> string list" where
  "numeric_columns d = select_dtypes [Number] d"

definition categorical_columns :: "dataframe \<Rightarrow> string list" where
  "categorical_columns d = select_dtypes [Object, Category] d"

definition n_rows :: "dataframe \<Rightarrow> nat" where
  "n_rows d = length (df_records d)"

definition n_cols :: "dataframe \<Rightarrow> nat" where
  "n_cols d = length (df_columns d)"

text \<open>\<open>df.isna().sum().sum()\<close>\<close>

definition n_missing :: "dataframe \<Rightarrow> nat" where
  "n_missing d = length (filter (\<lambda>c. c = None) (concat (df_records d)))"

text \<open>An entry of \<open>data_store\<close>.\<close>

record dataset =
  ds_filename :: string
  ds_path :: string
  ds_columns :: "string list"
  ds_df :: dataframe
  ds_dashboard :: "string option"

section \<open>Pictures and documents\<close>

text \<open>What a plotting call draws; only what the handlers decide is recorded.\<close>

datatype panel =
    Hist string
  | Scatter string string
  | TopValues string nat
  | TextPanel string
  | DatasetSummary nat nat nat

datatype chart =
    PxChart string string "string option" "string option"
  | PyplotFigure string
  | PlotlyFig string
  | FallbackHist string
  | FallbackBar string nat
  | ErrorText string
  | Overview panel panel panel panel
  | Heatmap

text \<open>An entry of \<open>visualization_paths\<close>.\<close>

record viz =
  tile_path :: string
  tile_title :: json
  tile_description :: json

datatype pdf_item =
    Cell string
  | MultiCell string
  | Ln nat
  | PdfImage string

text \<open>
  The dashboard page: the fixed markup is left out, the places the handler fills in are
  kept, in the order of the page.
\<close>

record preprocessed_block =
  original_shape :: string
  preprocessed_shape :: string
  changes :: "string list"

record dashboard =
  dash_filename :: string
  dash_rows :: nat
  dash_cols :: nat
  sec_data_quality :: string
  sec_statistics :: string
  sec_correlations :: string
  sec_patterns :: string
  dash_tiles :: "viz list"
  sec_preprocessing :: string
  dash_preprocessed :: "preprocessed_block option"
  dash_preprocessing_error :: "string option"
  sec_insights :: string

datatype stored_file =
    Uploaded string
  | Image chart
  | Pdf "pdf_item list"
  | Html dashboard
  | Truncated

section \<open>The world outside the program\<close>

datatype prompt =
    AnalyzePrompt dataframe string
  | AutoPrompt dataframe

text \<open>\<open>client.post\<close>: a transport failure, or a response with its status and text.\<close>

datatype post_outcome =
    TransportError string
  | Response nat string

text \<open>\<open>exec(code, namespace)\<close>: it raises, or it ends; then whether \<open>plt\<close> and
  \<open>fig\<close> are bound in the namespace. Either way the code has had the dataframe in its
  hands and may have changed it in place.\<close>

datatype exec_outcome =
    Raises exn
  | Namespace bool bool

text \<open>
  The libraries and services the handlers call are parameters: \<open>uuid_of n\<close> is the
  \<open>n\<close>-th identifier \<open>uuid.uuid4()\<close> hands out, \<open>read_csv\<close> and \<open>read_excel\<close> parse
  the content of an uploaded file, \<open>post_completion\<close> is the completion service,
  \<open>decode_reply\<close> is \<open>json.loads(response.json()["choices"][0]["message"]["content"])\<close>,
  \<open>exec_code\<close> runs generated code against a dataframe and returns the outcome with
  the dataframe as the code left it, \<open>render\<close> draws and saves a chart (\<open>None\<close>: no
  exception), \<open>path_exists\<close> is \<open>Path(p).exists()\<close> on the files the program has written
  and whatever else the file system holds, \<open>pdf_text\<close> is a text cell of the PDF library,
  \<open>pdf_image\<close> embeds an image file in the PDF, \<open>pdf_output\<close> encodes the document,
  \<open>str_of\<close> is \<open>str(e)\<close>, \<open>py_str\<close> is \<open>str(v)\<close> and \<open>json_dumps\<close> is
  \<open>json.dumps(v, indent=2)\<close>.
\<close>

record env =
  uuid_of :: "nat \<Rightarrow> string"
  read_csv :: "string \<Rightarrow> string + dataframe"
  read_excel :: "string \<Rightarrow> string + dataframe"
  post_completion :: "prompt \<Rightarrow> post_outcome"
  decode_reply :: "string \<Rightarrow> py_error + json"
  exec_code :: "string \<Rightarrow> dataframe \<Rightarrow> exec_outcome \<times> dataframe"
  render :: "chart \<Rightarrow> string \<Rightarrow> exn option"
  path_exists :: "(string \<rightharpoonup> stored_file) \<Rightarrow> string \<Rightarrow> bool"
  pdf_text :: "string \<Rightarrow> exn option"
  pdf_image :: "string \<Rightarrow> exn option"
  pdf_output :: "pdf_item list \<Rightarrow> exn option"
  str_of :: "exn \<Rightarrow> string"
  py_str :: "json \<Rightarrow> string"
  json_dumps :: "json \<Rightarrow> string"

text \<open>
  What is left out: writing a file with \<open>open\<close> always succeeds; building the prompt
  from the dataframe raises nothing; executed code acts on its namespace and on the
  dataframe only, and ends or raises an \<open>Exception\<close>; \<open>str(Path(p))\<close> is taken to be
  \<open>p\<close> as it was written.
\<close>

text \<open>The state of the process: \<open>data_store\<close>, the files on disk, and how many
  identifiers have been drawn.\<close>

record state =
  data_store :: "string \<rightharpoonup> dataset"
  disk :: "string \<rightharpoonup> stored_file"
  uuid_count :: nat

definition uuid4 :: "env \<Rightarrow> state \<Rightarrow> string \<times> state" where
  "uuid4 e s = (uuid_of e (uuid_count s), s\<lparr>uuid_count := Suc (uuid_count s)\<rparr>)"

definition write_file :: "string \<Rightarrow> stored_file \<Rightarrow> state \<Rightarrow> state" where
  "write_file p f s = s\<lparr>disk := (disk s)(p \<mapsto> f)\<rparr>"

text \<open>
  The dataframe handed to executed code is the object \<open>data_store\<close> holds: what the code
  did to it is seen by every later reader of the entry.
\<close>

definition mutate_df :: "string \<Rightarrow> dataframe \<Rightarrow> state \<Rightarrow> state" where
  "mutate_df file_id d s =
     s\<lparr>data_store := (data_store s)(file_id :=
          map_option (\<lambda>data. data\<lparr>ds_df := d\<rparr>) (data_store s file_id))\<rparr>"

definition UPLOAD_DIR :: string where
  "UPLOAD_DIR = ''temp/uploads''"

definition OUTPUT_DIR :: string where
  "OUTPUT_DIR = ''temp/outputs''"

section \<open>\<open>POST /api/upload\<close>\<close>

record upload_response =
  up_file_id :: string
  up_filename :: string
  up_columns :: "string list"
  up_preview :: "string option list list"

definition file_extension :: "string \<Rightarrow> string" where
  "file_extension filename = lower (last (split_on (CHR ''.'') filename))"

definition allowed_extensions :: "string list" where
  "allowed_extensions = [''csv'', ''xlsx'', ''xls'']"

definition upload_file ::
  "env \<Rightarrow> state \<Rightarrow> string option \<Rightarrow> string \<Rightarrow> (http_error + upload_response) \<times> state" where
  "upload_file e s filename content =
     (case filename of
        None \<Rightarrow> (Inl \<lparr>status_code = 400, detail = ''No file provided''\<rparr>, s)
      | Some fname \<Rightarrow>
          if fname = [] then (Inl \<lparr>status_code = 400, detail = ''No file provided''\<rparr>, s)
          else if file_extension fname \<notin> set allowed_extensions
          then (Inl \<lparr>status_code = 400, detail = ''Only CSV and Excel files are supported''\<rparr>, s)
          else
            (let (file_id, s1) = uuid4 e s;
                 file_path = UPLOAD_DIR @ ''/'' @ file_id @ ''.'' @ file_extension fname;
                 s2 = write_file file_path (Uploaded content) s1
             in case (if file_extension fname = ''csv'' then read_csv e content
                      else read_excel e content) of
                  Inl msg \<Rightarrow>
                    (Inl \<lparr>status_code = 500,
                          detail = ''Error processing file: '' @ str_of e (Other (LibraryError msg))\<rparr>,
                     s2)
                | Inr d \<Rightarrow>
                    (Inr \<lparr>up_file_id = file_id, up_filename = fname,
                          up_columns = columns_of d, up_preview = take 5 (df_records d)\<rparr>,
                     s2\<lparr>data_store := (data_store s2)(file_id \<mapsto>
                          \<lparr>ds_filename = fname, ds_path = file_path,
                           ds_columns = columns_of d, ds_df = d, ds_dashboard = None\<rparr>)\<rparr>)))"

section \<open>Python operations on decoded values\<close>

text \<open>\<open>k in v\<close>\<close>

fun py_in :: "string \<Rightarrow> json \<Rightarrow> py_error + bool" where
  "py_in k (JObj kvs) = Inr (lookup kvs k \<noteq> None)"
| "py_in k (JList xs) = Inr (JStr k \<in> set xs)"
| "py_in k (JStr s) = Inr (str_contains s k)"
| "py_in k v = Inl TypeError"

text \<open>\<open>v[k]\<close> for a string \<open>k\<close>\<close>

fun py_getitem :: "json \<Rightarrow> string \<Rightarrow> py_error + json" where
  "py_getitem (JObj kvs) k = (case lookup kvs k of None \<Rightarrow> Inl (KeyError k) | Some x \<Rightarrow> Inr x)"
| "py_getitem v k = Inl TypeError"

text \<open>\<open>v.get(k, default)\<close>\<close>

fun py_get :: "json \<Rightarrow> string \<Rightarrow> json \<Rightarrow> py_error + json" where
  "py_get (JObj kvs) k dflt = Inr (case lookup kvs k of None \<Rightarrow> dflt | Some x \<Rightarrow> x)"
| "py_get v k dflt = Inl AttributeError"

text \<open>\<open>v[k] = x\<close>\<close>

fun py_setitem :: "json \<Rightarrow> string \<Rightarrow> json \<Rightarrow> py_error + json" where
  "py_setitem (JObj kvs) k x = Inr (JObj (kvs @ [(k, x)]))"
| "py_setitem v k x = Inl TypeError"

text \<open>\<open>for x in v\<close>\<close>

fun py_iter :: "json \<Rightarrow> py_error + json list" where
  "py_iter (JList xs) = Inr xs"
| "py_iter (JStr s) = Inr (map (\<lambda>c. JStr [c]) s)"
| "py_iter (JObj kvs) = Inr (map JStr (rev (remdups (rev (map fst kvs)))))"
| "py_iter v = Inl TypeError"

text \<open>A value inside an f-string.\<close>

definition fmt :: "env \<Rightarrow> json \<Rightarrow> string" where
  "fmt e v = (case v of JStr t \<Rightarrow> t | _ \<Rightarrow> py_str e v)"

text \<open>The truth value of an optional form field.\<close>

definition given :: "string option \<Rightarrow> bool" where
  "given v = (case v of None \<Rightarrow> False | Some t \<Rightarrow> t \<noteq> [])"

definition not_found :: http_error where
  "not_found = \<lparr>status_code = 404, detail = ''File not found''\<rparr>"

definition output_url :: "string \<Rightarrow> string \<Rightarrow> string" where
  "output_url ident ext = ''/temp/outputs/'' @ ident @ ext"

definition output_file :: "string \<Rightarrow> string \<Rightarrow> string" where
  "output_file ident ext = OUTPUT_DIR @ ''/'' @ ident @ ext"

section \<open>\<open>POST /api/visualize\<close>\<close>

text \<open>The figure the \<open>if\<close>/\<open>elif\<close> chain on \<open>viz_type\<close> asks for, or what it raises.\<close>

definition requested_figure ::
  "string \<Rightarrow> string \<Rightarrow> string option \<Rightarrow> string option \<Rightarrow> exn + chart" where
  "requested_figure viz_type x_column y_column color_by =
     (if viz_type = ''bar''
      then Inr (PxChart ''bar'' x_column (if given y_column then y_column else None) color_by)
      else if viz_type = ''line''
      then (if \<not> given y_column
            then Inl (HTTPException \<lparr>status_code = 400, detail = ''Y column required for line chart''\<rparr>)
            else Inr (PxChart ''line'' x_column y_column color_by))
      else if viz_type = ''scatter''
      then (if \<not> given y_column
            then Inl (HTTPException \<lparr>status_code = 400, detail = ''Y column required for scatter plot''\<rparr>)
            else Inr (PxChart ''scatter'' x_column y_column color_by))
      else if viz_type = ''histogram''
      then Inr (PxChart ''histogram'' x_column None color_by)
      else if viz_type = ''box''
      then Inr (PxChart ''box'' x_column (if given y_column then y_column else None) color_by)
      else Inl (HTTPException \<lparr>status_code = 400,
                 detail = ''Unsupported visualization type: '' @ viz_type\<rparr>))"

text \<open>The body of the \<open>try\<close>.\<close>

definition visualize_body ::
  "env \<Rightarrow> state \<Rightarrow> string \<Rightarrow> string \<Rightarrow> string option \<Rightarrow> string option \<Rightarrow> (exn + string) \<times> state" where
  "visualize_body e s viz_type x_column y_column color_by =
     (let (vis_id, s1) = uuid4 e s;
          output_path = output_file vis_id ''.png''
      in case requested_figure viz_type x_column y_column color_by of
           Inl ex \<Rightarrow> (Inl ex, s1)
         | Inr fig \<Rightarrow>
             (case render e fig output_path of
                Some ex \<Rightarrow> (Inl ex, s1)
              | None \<Rightarrow> (Inr (output_url vis_id ''.png''), write_file output_path (Image fig) s1)))"

definition create_visualization ::
  "env \<Rightarrow> state \<Rightarrow> string \<Rightarrow> string \<Rightarrow> string \<Rightarrow> string option \<Rightarrow> string option
     \<Rightarrow> (http_error + string) \<times> state" where
  "create_visualization e s file_id viz_type x_column y_column color_by =
     (case data_store s file_id of
        None \<Rightarrow> (Inl not_found, s)
      | Some data \<Rightarrow>
          if x_column \<notin> set (columns_of (ds_df data))
          then (Inl \<lparr>status_code = 400, detail = ''Column '' @ x_column @ '' not found in data''\<rparr>, s)
          else if given y_column \<and> the y_column \<notin> set (columns_of (ds_df data))
          then (Inl \<lparr>status_code = 400,
                     detail = ''Column '' @ the y_column @ '' not found in data''\<rparr>, s)
          else if given color_by \<and> the color_by \<notin> set (columns_of (ds_df data))
          then (Inl \<lparr>status_code = 400,
                     detail = ''Column '' @ the color_by @ '' not found in data''\<rparr>, s)
          else
            (case visualize_body e s viz_type x_column y_column color_by of
               (Inl ex, s1) \<Rightarrow>
                 (Inl \<lparr>status_code = 500,
                       detail = ''Error creating visualization: '' @ str_of e ex\<rparr>, s1)
             | (Inr url, s1) \<Rightarrow> (Inr url, s1)))"

section \<open>\<open>POST /api/generate-report\<close>\<close>

text \<open>A text cell: the item it adds, or the exception of the library.\<close>

definition text_item :: "env \<Rightarrow> pdf_item \<Rightarrow> string \<Rightarrow> exn + pdf_item list" where
  "text_item e item t = (case pdf_text e t of Some ex \<Rightarrow> Inl ex | None \<Rightarrow> Inr [item])"

text \<open>The paragraphs of the analysis, one \<open>multi_cell\<close> for each line that is not blank.\<close>

fun add_paragraphs :: "env \<Rightarrow> string list \<Rightarrow> exn + pdf_item list" where
  "add_paragraphs e [] = Inr []"
| "add_paragraphs e (p # ps) =
     (if strip p \<noteq> []
      then (case text_item e (MultiCell p) p of
              Inl ex \<Rightarrow> Inl ex
            | Inr it \<Rightarrow> (case add_paragraphs e ps of Inl ex \<Rightarrow> Inl ex | Inr its \<Rightarrow> Inr (it @ its)))
      else add_paragraphs e ps)"

text \<open>
  One turn of the loop over \<open>visualization_paths\<close>: the inner \<open>try\<close> with its
  \<open>continue\<close>, then the \<open>except\<close> that writes the note. \<open>Inl\<close> is an exception that
  leaves the loop: only the note itself can raise it.
\<close>

definition strip_slash :: "string \<Rightarrow> string" where
  "strip_slash p = (if startswith p ''/'' then tl p else p)"

definition embed_try :: "env \<Rightarrow> state \<Rightarrow> nat \<Rightarrow> string \<Rightarrow> exn + pdf_item list" where
  "embed_try e s i viz_path =
     (let img_path = strip_slash viz_path
      in if \<not> path_exists e (disk s) img_path then Inr []
         else
           (case text_item e (Cell (''Visualization '' @ string_of_nat (i + 1)))
                   (''Visualization '' @ string_of_nat (i + 1)) of
              Inl ex \<Rightarrow> Inl ex
            | Inr caption \<Rightarrow>
                (case pdf_image e img_path of
                   Some ex \<Rightarrow> Inl ex
                 | None \<Rightarrow> Inr ([Ln 5] @ caption @ [PdfImage img_path, Ln 5]))))"

text \<open>What the failed \<open>try\<close> has already put on the page when the exception comes.\<close>

definition embed_partial :: "env \<Rightarrow> state \<Rightarrow> nat \<Rightarrow> string \<Rightarrow> pdf_item list" where
  "embed_partial e s i viz_path =
     (case pdf_text e (''Visualization '' @ string_of_nat (i + 1)) of
        Some ex \<Rightarrow> [Ln 5]
      | None \<Rightarrow> [Ln 5, Cell (''Visualization '' @ string_of_nat (i + 1))])"

definition embed_one :: "env \<Rightarrow> state \<Rightarrow> nat \<Rightarrow> string \<Rightarrow> exn + pdf_item list" where
  "embed_one e s i viz_path =
     (case embed_try e s i viz_path of
        Inr items \<Rightarrow> Inr items
      | Inl ex \<Rightarrow>
          (case text_item e (MultiCell (''Error adding visualization: '' @ str_of e ex))
                  (''Error adding visualization: '' @ str_of e ex) of
             Inl ex2 \<Rightarrow> Inl ex2
           | Inr note \<Rightarrow> Inr (embed_partial e s i viz_path @ note)))"

fun embed_all :: "env \<Rightarrow> state \<Rightarrow> nat \<Rightarrow> string list \<Rightarrow> exn + pdf_item list" where
  "embed_all e s i [] = Inr []"
| "embed_all e s i (p # ps) =
     (case embed_one e s i p of
        Inl ex \<Rightarrow> Inl ex
      | Inr items \<Rightarrow>
          (case embed_all e s (Suc i) ps of Inl ex \<Rightarrow> Inl ex | Inr rest \<Rightarrow> Inr (items @ rest)))"

definition add_visualizations :: "env \<Rightarrow> state \<Rightarrow> string list \<Rightarrow> exn + pdf_item list" where
  "add_visualizations e s visualization_paths =
     (if visualization_paths = [] then Inr []
      else
        (case text_item e (Cell ''Visualizations:'') ''Visualizations:'' of
           Inl ex \<Rightarrow> Inl ex
         | Inr heading \<Rightarrow>
             (case embed_all e s 0 visualization_paths of
                Inl ex \<Rightarrow> Inl ex
              | Inr items \<Rightarrow> Inr ([Ln 5] @ heading @ items))))"

definition report_title :: "dataset \<Rightarrow> string" where
  "report_title data = ''Data Analysis Report: '' @ ds_filename data"

text \<open>The document up to \<open>pdf.output\<close>.\<close>

definition report_items ::
  "env \<Rightarrow> state \<Rightarrow> dataset \<Rightarrow> string \<Rightarrow> string list \<Rightarrow> exn + pdf_item list" where
  "report_items e s data analysis_text visualization_paths =
     (case text_item e (Cell (report_title data)) (report_title data) of
        Inl ex \<Rightarrow> Inl ex
      | Inr title \<Rightarrow>
          (case text_item e (MultiCell ''Analysis:'') ''Analysis:'' of
             Inl ex \<Rightarrow> Inl ex
           | Inr heading \<Rightarrow>
               (case add_paragraphs e (split_on newline analysis_text) of
                  Inl ex \<Rightarrow> Inl ex
                | Inr paragraphs \<Rightarrow>
                    (case add_visualizations e s visualization_paths of
                       Inl ex \<Rightarrow> Inl ex
                     | Inr pictures \<Rightarrow> Inr (title @ [Ln 10] @ heading @ paragraphs @ pictures)))))"

definition generate_report ::
  "env \<Rightarrow> state \<Rightarrow> string \<Rightarrow> string \<Rightarrow> string list \<Rightarrow> (http_error + string) \<times> state" where
  "generate_report e s file_id analysis_text visualization_paths =
     (case data_store s file_id of
        None \<Rightarrow> (Inl not_found, s)
      | Some data \<Rightarrow>
          (case report_items e s data analysis_text visualization_paths of
             Inl ex \<Rightarrow>
               (Inl \<lparr>status_code = 500, detail = ''Error generating report: '' @ str_of e ex\<rparr>, s)
           | Inr items \<Rightarrow>
               (let (report_id, s1) = uuid4 e s
                in case pdf_output e items of
                     Some ex \<Rightarrow>
                       (Inl \<lparr>status_code = 500,
                             detail = ''Error generating report: '' @ str_of e ex\<rparr>, s1)
                   | None \<Rightarrow>
                       (Inr (output_url report_id ''.pdf''),
                        write_file (output_file report_id ''.pdf'') (Pdf items) s1))))"

section \<open>The completion call\<close>

text \<open>\<open>response.raise_for_status()\<close> lets a 2xx status through.\<close>

definition is_success :: "nat \<Rightarrow> bool" where
  "is_success st = (200 \<le> st \<and> st < 300)"

definition call_completion :: "env \<Rightarrow> prompt \<Rightarrow> exn + json" where
  "call_completion e p =
     (case post_completion e p of
        TransportError msg \<Rightarrow> Inl (Other (LibraryError msg))
      | Response st body \<Rightarrow>
          if \<not> is_success st then Inl (HTTPStatusError st body)
          else (case decode_reply e body of Inl err \<Rightarrow> Inl (Other err) | Inr v \<Rightarrow> Inr v))"

text \<open>The two \<open>except\<close> clauses that close \<open>analyze_data\<close> and \<open>auto_analyze_data\<close>.\<close>

definition surface :: "env \<Rightarrow> exn \<Rightarrow> http_error" where
  "surface e ex =
     (case ex of
        HTTPStatusError st body \<Rightarrow>
          \<lparr>status_code = st, detail = ''Error from OpenRouter API: '' @ body\<rparr>
      | _ \<Rightarrow> \<lparr>status_code = 500, detail = ''Error analyzing data: '' @ str_of e ex\<rparr>)"

section \<open>\<open>POST /api/analyze\<close>\<close>

record analyze_response =
  an_analysis :: json
  an_insights :: json
  an_visualization :: "string option"

text \<open>
  The inner \<open>try\<close>: the value of \<open>visualization_path\<close> when it ends, and the exception
  that ended it, if any. The path is assigned before the picture is saved.
\<close>

definition save_figure ::
  "env \<Rightarrow> state \<Rightarrow> chart \<Rightarrow> (string option \<times> exn option) \<times> state" where
  "save_figure e s fig =
     (let (vis_id, s1) = uuid4 e s
      in case render e fig (output_file vis_id ''.png'') of
           Some ex \<Rightarrow> ((Some (output_url vis_id ''.png''), Some ex), s1)
         | None \<Rightarrow>
             ((Some (output_url vis_id ''.png''), None),
              write_file (output_file vis_id ''.png'') (Image fig) s1))"

definition run_visualization_code ::
  "env \<Rightarrow> state \<Rightarrow> string \<Rightarrow> dataframe \<Rightarrow> json \<Rightarrow> (string option \<times> exn option) \<times> state" where
  "run_visualization_code e s file_id d code =
     (case code of
        JStr c \<Rightarrow>
          (case exec_code e c d of
             (Raises ex, d1) \<Rightarrow> ((None, Some ex), mutate_df file_id d1 s)
           | (Namespace has_plt has_fig, d1) \<Rightarrow>
               if str_contains c ''plt'' then save_figure e (mutate_df file_id d1 s) (PyplotFigure c)
               else if str_contains c ''px''
               then (if has_fig then save_figure e (mutate_df file_id d1 s) (PlotlyFig c)
                     else ((None, None), mutate_df file_id d1 s))
               else ((None, None), mutate_df file_id d1 s))
      | _ \<Rightarrow> ((None, Some (Other TypeError)), s))"

definition analyze_reply ::
  "env \<Rightarrow> state \<Rightarrow> string \<Rightarrow> dataframe \<Rightarrow> json \<Rightarrow> (exn + analyze_response) \<times> state" where
  "analyze_reply e s file_id d ai_analysis =
     (case py_in ''visualization_code'' ai_analysis of
        Inl err \<Rightarrow> (Inl (Other err), s)
      | Inr present \<Rightarrow>
          (case (if present then py_getitem ai_analysis ''visualization_code'' else Inr JNull) of
             Inl err \<Rightarrow> (Inl (Other err), s)
           | Inr code \<Rightarrow>
               (let ((visualization_path, raised), s1) =
                      (if present \<and> truthy code then run_visualization_code e s file_id d code
                       else ((None, None), s))
                in case (case raised of
                           None \<Rightarrow> Inr ai_analysis
                         | Some ex \<Rightarrow>
                             py_setitem ai_analysis ''visualization_error'' (JStr (str_of e ex))) of
                     Inl err \<Rightarrow> (Inl (Other err), s1)
                   | Inr ai1 \<Rightarrow>
                       (case py_get ai1 ''analysis'' (JStr ''No analysis provided'') of
                          Inl err \<Rightarrow> (Inl (Other err), s1)
                        | Inr a \<Rightarrow>
                            (case py_get ai1 ''insights'' (JStr ''No insights provided'') of
                               Inl err \<Rightarrow> (Inl (Other err), s1)
                             | Inr ins \<Rightarrow>
                                 (Inr \<lparr>an_analysis = a, an_insights = ins,
                                       an_visualization = visualization_path\<rparr>, s1))))))"

definition analyze_body ::
  "env \<Rightarrow> state \<Rightarrow> string \<Rightarrow> dataframe \<Rightarrow> string \<Rightarrow> (exn + analyze_response) \<times> state" where
  "analyze_body e s file_id d query =
     (case call_completion e (AnalyzePrompt d query) of
        Inl ex \<Rightarrow> (Inl ex, s)
      | Inr ai_analysis \<Rightarrow> analyze_reply e s file_id d ai_analysis)"

definition analyze_data ::
  "env \<Rightarrow> state \<Rightarrow> string \<Rightarrow> string \<Rightarrow> (http_error + analyze_response) \<times> state" where
  "analyze_data e s file_id query =
     (case data_store s file_id of
        None \<Rightarrow> (Inl not_found, s)
      | Some data \<Rightarrow>
          (case analyze_body e s file_id (ds_df data) query of
             (Inl ex, s1) \<Rightarrow> (Inl (surface e ex), s1)
           | (Inr r, s1) \<Rightarrow> (Inr r, s1)))"

section \<open>\<open>POST /api/auto-analyze\<close>: the visualization slots\<close>

definition squote :: "string \<Rightarrow> string" where
  "squote t = [CHR 0x27] @ t @ [CHR 0x27]"

text \<open>The two canned code fragments.\<close>

definition hist_code :: "string \<Rightarrow> string" where
  "hist_code c =
     ''\<newline>import seaborn as sns\<newline>plt.figure(figsize=(10, 6))\<newline>sns.histplot(df[''
     @ squote c @ ''], kde=True)\<newline>plt.title('' @ squote (''Distribution of '' @ c)
     @ '')\<newline>plt.xlabel('' @ squote c @ '')\<newline>plt.ylabel('' @ squote ''Count''
     @ '')\<newline>plt.tight_layout()\<newline>''"

definition heatmap_code :: string where
  "heatmap_code =
     ''\<newline>import seaborn as sns\<newline>plt.figure(figsize=(12, 10))\<newline>corr = df.select_dtypes(include=[''
     @ squote ''number'' @ '']).corr()\<newline>mask = np.triu(np.ones_like(corr, dtype=bool))\<newline>sns.heatmap(corr, mask=mask, annot=True, cmap=''
     @ squote ''coolwarm'' @ '', fmt='' @ squote ''.2f'' @ '', linewidths=0.5)\<newline>plt.title(''
     @ squote ''Correlation Heatmap'' @ '')\<newline>plt.tight_layout()\<newline>''"

text \<open>\<open>viz_code\<close> as the first lines of the \<open>try\<close> leave it.\<close>

definition slot_code :: "json \<Rightarrow> py_error + json option" where
  "slot_code viz_item =
     (case py_in ''code'' viz_item of
        Inl err \<Rightarrow> Inl err
      | Inr present \<Rightarrow>
          if \<not> present then Inr None
          else (case py_getitem viz_item ''code'' of
                  Inl err \<Rightarrow> Inl err
                | Inr c \<Rightarrow> Inr (if truthy c then Some c else None)))"

text \<open>\<open>not viz_code or len(viz_code.strip()) < 10\<close>\<close>

definition needs_default :: "json option \<Rightarrow> py_error + bool" where
  "needs_default viz_code =
     (case viz_code of
        None \<Rightarrow> Inr True
      | Some v \<Rightarrow>
          if \<not> truthy v then Inr True
          else (case v of JStr c \<Rightarrow> Inr (length (strip c) < 10) | _ \<Rightarrow> Inl AttributeError))"

text \<open>The branch under that test: the new \<open>viz_code\<close> and the new \<open>viz_item\<close>.\<close>

definition substitute_default ::
  "nat \<Rightarrow> dataframe \<Rightarrow> json \<Rightarrow> json option \<Rightarrow> py_error + (json option \<times> json)" where
  "substitute_default i d viz_item viz_code =
     (if i = 0 then
        (case numeric_columns d of
           [] \<Rightarrow> Inr (viz_code, viz_item)
         | c # _ \<Rightarrow>
             (case py_setitem viz_item ''title'' (JStr (''Distribution of '' @ c)) of
                Inl err \<Rightarrow> Inl err
              | Inr item1 \<Rightarrow>
                  (case py_setitem item1 ''description''
                          (JStr (''Histogram showing the distribution of '' @ c @ '' values'')) of
                     Inl err \<Rightarrow> Inl err
                   | Inr item2 \<Rightarrow> Inr (Some (JStr (hist_code c)), item2))))
      else if i = 1 then
        (if length (numeric_columns d) > 1 then
           (case py_setitem viz_item ''title'' (JStr ''Correlation Heatmap'') of
              Inl err \<Rightarrow> Inl err
            | Inr item1 \<Rightarrow>
                (case py_setitem item1 ''description''
                        (JStr ''Heatmap showing correlations between numeric variables'') of
                   Inl err \<Rightarrow> Inl err
                 | Inr item2 \<Rightarrow> Inr (Some (JStr heatmap_code), item2)))
         else Inr (viz_code, viz_item))
      else Inr (viz_code, viz_item))"

definition tile :: "string \<Rightarrow> json \<Rightarrow> json \<Rightarrow> viz" where
  "tile ident t ds = \<lparr>tile_path = output_url ident ''.png'', tile_title = t, tile_description = ds\<rparr>"

definition slot_name :: "nat \<Rightarrow> string" where
  "slot_name i = ''Visualization '' @ string_of_nat (i + 1)"

text \<open>Saving the figure of a slot and appending its entry.\<close>

definition save_tile ::
  "env \<Rightarrow> chart \<Rightarrow> string \<Rightarrow> nat \<Rightarrow> json \<Rightarrow> viz list \<Rightarrow> state \<Rightarrow> exn option \<times> viz list \<times> state" where
  "save_tile e fig vis_id i viz_item paths s =
     (case render e fig (output_file vis_id ''.png'') of
        Some ex \<Rightarrow> (Some ex, paths, s)
      | None \<Rightarrow>
          (let s1 = write_file (output_file vis_id ''.png'') (Image fig) s
           in case py_get viz_item ''title'' (JStr (slot_name i)) of
                Inl err \<Rightarrow> (Some (Other err), paths, s1)
              | Inr t \<Rightarrow>
                  (case py_get viz_item ''description'' (JStr []) of
                     Inl err \<Rightarrow> (Some (Other err), paths, s1)
                   | Inr ds \<Rightarrow> (None, paths @ [tile vis_id t ds], s1))))"

text \<open>The fallback picture of a slot whose code left nothing to save.\<close>

definition fallback_chart :: "dataframe \<Rightarrow> exn + chart" where
  "fallback_chart d =
     (case numeric_columns d of
        c # _ \<Rightarrow> Inr (FallbackHist c)
      | [] \<Rightarrow>
          (case columns_of d of
             [] \<Rightarrow> Inl (Other IndexError)
           | c # _ \<Rightarrow> Inr (FallbackBar c 10)))"

definition slot_fallback ::
  "env \<Rightarrow> dataframe \<Rightarrow> string \<Rightarrow> nat \<Rightarrow> json \<Rightarrow> viz list \<Rightarrow> state \<Rightarrow> exn option \<times> viz list \<times> state" where
  "slot_fallback e d vis_id i viz_item paths s =
     (case fallback_chart d of
        Inl ex \<Rightarrow> (Some ex, paths, s)
      | Inr fig \<Rightarrow>
          (case render e fig (output_file vis_id ''.png'') of
             Some ex \<Rightarrow> (Some ex, paths, s)
           | None \<Rightarrow>
               (let s1 = write_file (output_file vis_id ''.png'') (Image fig) s
                in case py_get viz_item ''title'' (JStr (slot_name i)) of
                     Inl err \<Rightarrow> (Some (Other err), paths, s1)
                   | Inr t \<Rightarrow>
                       (None,
                        paths @ [tile vis_id (JStr (''Fallback Visualization for '' @ fmt e t))
                                   (JStr ''Automatically generated fallback visualization'')],
                        s1))))"

text \<open>\<open>if viz_code:\<close> and what follows it. The fallback reads the dataframe after the
  code has run.\<close>

definition execute_slot ::
  "env \<Rightarrow> string \<Rightarrow> dataframe \<Rightarrow> nat \<Rightarrow> json \<Rightarrow> json \<Rightarrow> viz list \<Rightarrow> state
     \<Rightarrow> exn option \<times> viz list \<times> state \<times> dataframe" where
  "execute_slot e file_id d i viz_item v paths s =
     (case v of
        JStr code \<Rightarrow>
          (case exec_code e code d of
             (Raises ex, d1) \<Rightarrow> (Some ex, paths, mutate_df file_id d1 s, d1)
           | (Namespace has_plt has_fig, d1) \<Rightarrow>
               (let (vis_id, s1) = uuid4 e (mutate_df file_id d1 s)
                in if has_plt \<and> str_contains code ''plt''
                   then (case save_tile e (PyplotFigure code) vis_id i viz_item paths s1 of
                           (raised, paths1, s2) \<Rightarrow> (raised, paths1, s2, d1))
                   else if str_contains code ''px'' \<or> str_contains code ''go.'' \<or> has_fig
                   then (if has_fig
                         then (case save_tile e (PlotlyFig code) vis_id i viz_item paths s1 of
                                 (raised, paths1, s2) \<Rightarrow> (raised, paths1, s2, d1))
                         else (None, paths, s1, d1))
                   else if paths = []
                   then (case slot_fallback e d1 vis_id i viz_item paths s1 of
                           (raised, paths1, s2) \<Rightarrow> (raised, paths1, s2, d1))
                   else (None, paths, s1, d1)))
      | _ \<Rightarrow> (Some (Other TypeError), paths, s, d))"

text \<open>
  \<open>viz_code\<close> and \<open>viz_item\<close> when the slot reaches \<open>if viz_code:\<close>: the code of the
  item, replaced by a canned fragment where the test above asks for one.
\<close>

definition prepare_slot :: "nat \<Rightarrow> dataframe \<Rightarrow> json \<Rightarrow> py_error + (json option \<times> json)" where
  "prepare_slot i d viz_item =
     (case slot_code viz_item of
        Inl err \<Rightarrow> Inl err
      | Inr viz_code \<Rightarrow>
          (case needs_default viz_code of
             Inl err \<Rightarrow> Inl err
           | Inr short \<Rightarrow>
               if short then substitute_default i d viz_item viz_code
               else Inr (viz_code, viz_item)))"

text \<open>The \<open>try\<close> of one slot: the exception that ended it, if any, and the dataframe
  as the slot leaves it.\<close>

definition slot_try ::
  "env \<Rightarrow> string \<Rightarrow> dataframe \<Rightarrow> nat \<Rightarrow> json \<Rightarrow> viz list \<Rightarrow> state
     \<Rightarrow> exn option \<times> viz list \<times> state \<times> dataframe" where
  "slot_try e file_id d i viz_item paths s =
     (case prepare_slot i d viz_item of
        Inl err \<Rightarrow> (Some (Other err), paths, s, d)
      | Inr (code1, item1) \<Rightarrow>
          (case code1 of
             None \<Rightarrow> (None, paths, s, d)
           | Some v \<Rightarrow>
               if \<not> truthy v then (None, paths, s, d)
               else execute_slot e file_id d i item1 v paths s))"

text \<open>The \<open>except\<close> of a slot: the picture of the error text, or nothing.\<close>

definition slot_except :: "env \<Rightarrow> nat \<Rightarrow> exn \<Rightarrow> viz list \<Rightarrow> state \<Rightarrow> viz list \<times> state" where
  "slot_except e i ex paths s =
     (let (vis_id, s2) = uuid4 e s;
          fig = ErrorText (''Error generating visualization:\<newline>'' @ str_of e ex)
      in case render e fig (output_file vis_id ''.png'') of
           Some ex2 \<Rightarrow> (paths, s2)
         | None \<Rightarrow>
             (paths @ [tile vis_id (JStr (''Error in Visualization '' @ string_of_nat (i + 1)))
                         (JStr (''Error: '' @ str_of e ex))],
              write_file (output_file vis_id ''.png'') (Image fig) s2))"

text \<open>One turn of the loop over the slots: the list, the state and the dataframe.\<close>

definition process_slot ::
  "env \<Rightarrow> string \<Rightarrow> nat \<Rightarrow> json \<Rightarrow> viz list \<times> state \<times> dataframe \<Rightarrow> viz list \<times> state \<times> dataframe" where
  "process_slot e file_id i viz_item acc =
     (case acc of
        (paths, s, d) \<Rightarrow>
          (case slot_try e file_id d i viz_item paths s of
             (None, paths1, s1, d1) \<Rightarrow> (paths1, s1, d1)
           | (Some ex, paths1, s1, d1) \<Rightarrow>
               (case slot_except e i ex paths1 s1 of (paths2, s2) \<Rightarrow> (paths2, s2, d1))))"

fun process_slots ::
  "env \<Rightarrow> string \<Rightarrow> nat \<Rightarrow> json list \<Rightarrow> viz list \<times> state \<times> dataframe
     \<Rightarrow> viz list \<times> state \<times> dataframe" where
  "process_slots e file_id i [] acc = acc"
| "process_slots e file_id i (x # xs) acc =
     process_slots e file_id (Suc i) xs (process_slot e file_id i x acc)"

text \<open>\<open>"visualizations" in ai_analysis and isinstance(ai_analysis["visualizations"], list)\<close>\<close>

definition requested_slots :: "json \<Rightarrow> py_error + json list" where
  "requested_slots a =
     (case py_in ''visualizations'' a of
        Inl err \<Rightarrow> Inl err
      | Inr present \<Rightarrow>
          if \<not> present then Inr []
          else (case py_getitem a ''visualizations'' of
                  Inl err \<Rightarrow> Inl err
                | Inr (JList xs) \<Rightarrow> Inr xs
                | Inr _ \<Rightarrow> Inr []))"

section \<open>\<open>POST /api/auto-analyze\<close>: the default visualizations\<close>

definition overview_chart :: "dataframe \<Rightarrow> chart" where
  "overview_chart d =
     Overview
       (case numeric_columns d of
          c # _ \<Rightarrow> Hist c
        | [] \<Rightarrow> TextPanel ''No numeric columns found'')
       (case numeric_columns d of
          c0 # c1 # _ \<Rightarrow> Scatter c0 c1
        | _ \<Rightarrow> TextPanel ''Insufficient numeric columns for scatter'')
       (case categorical_columns d of
          c # _ \<Rightarrow> TopValues c 5
        | [] \<Rightarrow> TextPanel ''No categorical columns found'')
       (DatasetSummary (n_rows d) (n_cols d) (n_missing d))"

text \<open>\<open>if not visualization_paths:\<close> with its \<open>try\<close>, whose \<open>except\<close> only prints.\<close>

definition add_default_visualizations ::
  "env \<Rightarrow> dataframe \<Rightarrow> viz list \<times> state \<Rightarrow> viz list \<times> state" where
  "add_default_visualizations e d acc =
     (if fst acc \<noteq> [] then acc
      else
        (let (vis_id, s1) = uuid4 e (snd acc)
         in case render e (overview_chart d) (output_file vis_id ''.png'') of
              Some ex \<Rightarrow> ([], s1)
            | None \<Rightarrow>
                (let paths1 = [tile vis_id (JStr ''Data Overview'')
                                 (JStr ''A summary of key characteristics in the dataset'')];
                     s2 = write_file (output_file vis_id ''.png'') (Image (overview_chart d)) s1
                 in if length (numeric_columns d) > 1 then
                      (let (vis_id2, s3) = uuid4 e s2
                       in case render e Heatmap (output_file vis_id2 ''.png'') of
                            Some ex \<Rightarrow> (paths1, s3)
                          | None \<Rightarrow>
                              (paths1 @ [tile vis_id2 (JStr ''Correlation Heatmap'')
                                 (JStr ''Heatmap showing correlations between numeric variables'')],
                               write_file (output_file vis_id2 ''.png'') (Image Heatmap) s3))
                    else (paths1, s2))))"

section \<open>\<open>POST /api/auto-analyze\<close>: the dashboard\<close>

definition format_content :: "env \<Rightarrow> json \<Rightarrow> string" where
  "format_content e content =
     (case content of
        JStr t \<Rightarrow> replace_char newline ''<br>'' t
      | JObj kvs \<Rightarrow>
          replace_char (CHR '' '') ''&nbsp;'' (replace_char newline ''<br>'' (json_dumps e content))
      | JList xs \<Rightarrow>
          replace_char (CHR '' '') ''&nbsp;'' (replace_char newline ''<br>'' (json_dumps e content))
      | _ \<Rightarrow> replace_char newline ''<br>'' (py_str e content))"

text \<open>\<open>format_content(ai_analysis.get(key, placeholder))\<close>\<close>

definition section_text :: "env \<Rightarrow> json \<Rightarrow> string \<Rightarrow> string \<Rightarrow> py_error + string" where
  "section_text e a key placeholder =
     (case py_get a key (JStr placeholder) of
        Inl err \<Rightarrow> Inl err
      | Inr v \<Rightarrow> Inr (format_content e v))"

text \<open>The block under \<open>if "preprocessed_data_info" in ai_analysis:\<close>\<close>

definition preprocessed_results :: "env \<Rightarrow> json \<Rightarrow> py_error + preprocessed_block option" where
  "preprocessed_results e a =
     (case py_in ''preprocessed_data_info'' a of
        Inl err \<Rightarrow> Inl err
      | Inr present \<Rightarrow>
          if \<not> present then Inr None
          else
            (case py_getitem a ''preprocessed_data_info'' of
               Inl err \<Rightarrow> Inl err
             | Inr info \<Rightarrow>
                 (case py_getitem info ''original_shape'' of
                    Inl err \<Rightarrow> Inl err
                  | Inr os \<Rightarrow>
                      (case py_getitem info ''preprocessed_shape'' of
                         Inl err \<Rightarrow> Inl err
                       | Inr ps \<Rightarrow>
                           (case py_getitem info ''changes'' of
                              Inl err \<Rightarrow> Inl err
                            | Inr ch \<Rightarrow>
                                (case (if truthy ch then py_iter ch
                                       else Inr [JStr ''No significant data type changes detected'']) of
                                   Inl err \<Rightarrow> Inl err
                                 | Inr items \<Rightarrow>
                                     Inr (Some \<lparr>original_shape = fmt e os,
                                                preprocessed_shape = fmt e ps,
                                                changes = map (fmt e) items\<rparr>)))))))"

text \<open>The block under \<open>if "preprocessing_error" in ai_analysis:\<close>\<close>

definition preprocessing_warning :: "env \<Rightarrow> json \<Rightarrow> py_error + string option" where
  "preprocessing_warning e a =
     (case py_in ''preprocessing_error'' a of
        Inl err \<Rightarrow> Inl err
      | Inr present \<Rightarrow>
          if \<not> present then Inr None
          else (case py_getitem a ''preprocessing_error'' of
                  Inl err \<Rightarrow> Inl err
                | Inr v \<Rightarrow> Inr (Some (fmt e v))))"

text \<open>Sequencing of steps that may raise.\<close>

definition and_then :: "'e + 'a \<Rightarrow> ('a \<Rightarrow> 'e + 'b) \<Rightarrow> 'e + 'b" where
  "and_then r f = (case r of Inl err \<Rightarrow> Inl err | Inr x \<Rightarrow> f x)"

text \<open>The writes into the dashboard file, in the order of the source.\<close>

definition assemble_dashboard :: "env \<Rightarrow> dataset \<Rightarrow> json \<Rightarrow> viz list \<Rightarrow> py_error + dashboard" where
  "assemble_dashboard e data a paths =
     and_then (section_text e a ''data_quality'' ''No data quality assessment available'') (\<lambda>dq.
     and_then (section_text e a ''statistics'' ''No statistics available'') (\<lambda>st.
     and_then (section_text e a ''correlations'' ''No correlation analysis available'') (\<lambda>co.
     and_then (section_text e a ''patterns'' ''No patterns identified'') (\<lambda>pa.
     and_then (section_text e a ''preprocessing'' ''No preprocessing recommendations available'') (\<lambda>pr.
     and_then (preprocessed_results e a) (\<lambda>info.
     and_then (preprocessing_warning e a) (\<lambda>warn.
     and_then (section_text e a ''insights'' ''No insights available'') (\<lambda>ins.
       Inr \<lparr>dash_filename = ds_filename data,
            dash_rows = n_rows (ds_df data),
            dash_cols = n_cols (ds_df data),
            sec_data_quality = dq,
            sec_statistics = st,
            sec_correlations = co,
            sec_patterns = pa,
            dash_tiles = paths,
            sec_preprocessing = pr,
            dash_preprocessed = info,
            dash_preprocessing_error = warn,
            sec_insights = ins\<rparr>))))))))"

section \<open>\<open>POST /api/auto-analyze\<close>: the handler\<close>

record auto_analysis =
  aa_data_quality :: json
  aa_statistics :: json
  aa_correlations :: json
  aa_patterns :: json
  aa_insights :: json

record auto_response =
  dashboard_url :: string
  analysis :: auto_analysis
  visualizations :: "viz list"

definition returned_analysis :: "json \<Rightarrow> py_error + auto_analysis" where
  "returned_analysis a =
     and_then (py_get a ''data_quality'' (JStr [])) (\<lambda>dq.
     and_then (py_get a ''statistics'' (JStr [])) (\<lambda>st.
     and_then (py_get a ''correlations'' (JStr [])) (\<lambda>co.
     and_then (py_get a ''patterns'' (JStr [])) (\<lambda>pa.
     and_then (py_get a ''insights'' (JStr [])) (\<lambda>ins.
       Inr \<lparr>aa_data_quality = dq, aa_statistics = st, aa_correlations = co,
            aa_patterns = pa, aa_insights = ins\<rparr>)))))"

text \<open>Everything after the reply has been decoded.\<close>

definition auto_reply ::
  "env \<Rightarrow> state \<Rightarrow> string \<Rightarrow> dataset \<Rightarrow> json \<Rightarrow> (py_error + auto_response) \<times> state" where
  "auto_reply e s file_id data ai_analysis =
     (case requested_slots ai_analysis of
        Inl err \<Rightarrow> (Inl err, s)
      | Inr slots \<Rightarrow>
          (case process_slots e file_id 0 slots ([], s, ds_df data) of
             (paths1, s1, d1) \<Rightarrow>
               (let (visualization_paths, s2) = add_default_visualizations e d1 (paths1, s1);
                    (dashboard_id, s3) = uuid4 e s2;
                    dashboard_path = output_file dashboard_id ''.html'';
                    data1 = data\<lparr>ds_df := d1\<rparr>
                in case assemble_dashboard e data1 ai_analysis visualization_paths of
                     Inl err \<Rightarrow> (Inl err, write_file dashboard_path Truncated s3)
                   | Inr page \<Rightarrow>
                       (let s4 = write_file dashboard_path (Html page) s3;
                            s5 = s4\<lparr>data_store := (data_store s4)(file_id \<mapsto>
                                   data1\<lparr>ds_dashboard := Some (output_url dashboard_id ''.html'')\<rparr>)\<rparr>
                        in case returned_analysis ai_analysis of
                             Inl err \<Rightarrow> (Inl err, s5)
                           | Inr summary \<Rightarrow>
                               (Inr \<lparr>dashboard_url = output_url dashboard_id ''.html'',
                                     analysis = summary,
                                     visualizations = visualization_paths\<rparr>, s5)))))"

definition auto_body ::
  "env \<Rightarrow> state \<Rightarrow> string \<Rightarrow> dataset \<Rightarrow> (exn + auto_response) \<times> state" where
  "auto_body e s file_id data =
     (case call_completion e (AutoPrompt (ds_df data)) of
        Inl ex \<Rightarrow> (Inl ex, s)
      | Inr ai_analysis \<Rightarrow>
          (case auto_reply e s file_id data ai_analysis of
             (Inl err, s1) \<Rightarrow> (Inl (Other err), s1)
           | (Inr r, s1) \<Rightarrow> (Inr r, s1)))"

definition auto_analyze_data ::
  "env \<Rightarrow> state \<Rightarrow> string \<Rightarrow> (http_error + auto_response) \<times> state" where
  "auto_analyze_data e s file_id =
     (case data_store s file_id of
        None \<Rightarrow> (Inl not_found, s)
      | Some data \<Rightarrow>
          (case auto_body e s file_id data of
             (Inl ex, s1) \<Rightarrow> (Inl (surface e ex), s1)
           | (Inr r, s1) \<Rightarrow> (Inr r, s1)))"

section \<open>A small world to run the handlers in\<close>

text \<open>
  Three stored datasets: one without numeric columns, one with two, one with neither a
  numeric nor a categorical column. A service that answers as told, executed code that
  ends and leaves the dataframe alone, libraries that accept every text and chart, a file
  system that holds what the program wrote, and an image embedder that refuses every file.
\<close>

definition cities :: dataframe where
  "cities =
     \<lparr>df_columns = [(''city'', Object), (''seen'', OtherDtype)],
      df_records = [[Some ''Oslo'', Some ''2020-01-01''], [Some ''Rome'', None]]\<rparr>"

definition sizes :: dataframe where
  "sizes =
     \<lparr>df_columns = [(''height'', Number), (''width'', Number)],
      df_records = [[Some ''1'', Some ''2'']]\<rparr>"

definition dates :: dataframe where
  "dates =
     \<lparr>df_columns = [(''seen'', OtherDtype)],
      df_records = [[Some ''2020-01-01'']]\<rparr>"

definition stored :: "string \<Rightarrow> dataframe \<Rightarrow> dataset" where
  "stored name d =
     \<lparr>ds_filename = name, ds_path = UPLOAD_DIR @ ''/'' @ name,
      ds_columns = columns_of d, ds_df = d, ds_dashboard = None\<rparr>"

definition world :: state where
  "world =
     \<lparr>data_store = [''f1'' \<mapsto> stored ''cities.csv'' cities, ''f2'' \<mapsto> stored ''sizes.csv'' sizes,
                     ''f3'' \<mapsto> stored ''dates.xlsx'' dates],
      disk = [''temp/outputs/a.png'' \<mapsto> Image Heatmap],
      uuid_count = 0\<rparr>"

definition describe_exn :: "exn \<Rightarrow> string" where
  "describe_exn ex =
     (case ex of
        HTTPException h \<Rightarrow> detail h
      | HTTPStatusError st body \<Rightarrow> body
      | Other (LibraryError msg) \<Rightarrow> msg
      | Other (KeyError k) \<Rightarrow> k
      | Other _ \<Rightarrow> ''error'')"

definition service :: "post_outcome \<Rightarrow> json \<Rightarrow> env" where
  "service outcome reply =
     \<lparr>uuid_of = (\<lambda>n. replicate n (CHR ''i'') @ ''d''),
      read_csv = (\<lambda>content. if content = [] then Inl ''No columns to parse from file''
                             else Inr cities),
      read_excel = (\<lambda>content. Inl ''File is not a zip file''),
      post_completion = (\<lambda>p. outcome),
      decode_reply = (\<lambda>body. Inr reply),
      exec_code = (\<lambda>code d. (Namespace True False, d)),
      render = (\<lambda>fig p. None),
      path_exists = (\<lambda>files p. files p \<noteq> None),
      pdf_text = (\<lambda>t. None),
      pdf_image = (\<lambda>p. Some (Other (LibraryError ''not a PNG file''))),
      pdf_output = (\<lambda>items. None),
      str_of = describe_exn,
      py_str = (\<lambda>v. ''?''),
      json_dumps = (\<lambda>v. ''?'')\<rparr>"

section \<open>Facts about the string operations\<close>

lemma split_on_no_sep: "c \<notin> set t \<Longrightarrow> split_on c t = [t]"
  by (induction t) auto

lemma file_extension_empty: "file_extension [] = []"
  by (simp add: file_extension_def lower_def)

lemma allowed_not_empty: "file_extension fname \<in> set allowed_extensions \<Longrightarrow> fname \<noteq> []"
  by (auto simp: file_extension_empty allowed_extensions_def)

lemma file_extension_dotless: "CHR ''.'' \<notin> set fname \<Longrightarrow> file_extension fname = lower fname"
  by (simp add: file_extension_def split_on_no_sep)

section \<open>Facts about the small world\<close>

lemma world_f1: "data_store world ''f1'' = Some (stored ''cities.csv'' cities)"
  by (simp add: world_def)

lemma world_f2: "data_store world ''f2'' = Some (stored ''sizes.csv'' sizes)"
  by (simp add: world_def)

lemma world_count: "uuid_count world = 0"
  by (simp add: world_def)

lemma world_disk_a: "disk world ''temp/outputs/a.png'' = Some (Image Heatmap)"
  by (simp add: world_def)

lemma world_disk_gone: "disk world ''temp/outputs/gone.png'' = None"
  by (simp add: world_def)

lemma first_output: "output_file ''d'' ''.png'' = ''temp/outputs/d.png''"
  by (simp add: output_file_def OUTPUT_DIR_def)

lemma numeric_sizes: "numeric_columns sizes = [''height'', ''width'']"
  by (simp add: numeric_columns_def select_dtypes_def sizes_def)

lemma numeric_cities: "numeric_columns cities = []"
  by (simp add: numeric_columns_def select_dtypes_def cities_def)

section \<open>Unknown identifiers\<close>

text \<open>
  C2. When \<open>file_id\<close> is not a key of \<open>data_store\<close>, each of \<open>analyze_data\<close>,
  \<open>create_visualization\<close>, \<open>generate_report\<close> and \<open>auto_analyze_data\<close> answers with the
  404 error "File not found" and leaves the state as it was: no identifier is drawn, no
  file is written, no service is called.
\<close>

theorem unknown_file_id_not_found:
  "data_store s file_id = None \<Longrightarrow>
     analyze_data e s file_id query = (Inl not_found, s)
     \<and> create_visualization e s file_id viz_type x_column y_column color_by = (Inl not_found, s)
     \<and> generate_report e s file_id analysis_text visualization_paths = (Inl not_found, s)
     \<and> auto_analyze_data e s file_id = (Inl not_found, s)
     \<and> status_code not_found = 404"
  by (simp add: analyze_data_def create_visualization_def generate_report_def
        auto_analyze_data_def not_found_def)

theorem unknown_file_id_not_found_witness:
  "data_store world ''f9'' = None
     \<and> analyze_data (service (Response 200 []) (JObj [])) world ''f9'' ''why'' = (Inl not_found, world)
     \<and> create_visualization (service (Response 200 []) (JObj [])) world ''f9'' ''bar'' ''city'' None None
         = (Inl not_found, world)
     \<and> generate_report (service (Response 200 []) (JObj [])) world ''f9'' ''text'' [] = (Inl not_found, world)
     \<and> auto_analyze_data (service (Response 200 []) (JObj [])) world ''f9'' = (Inl not_found, world)
     \<and> status_code not_found = 404"
proof -
  have h: "data_store world ''f9'' = None"
    by (simp add: world_def)
  show ?thesis
    using h unknown_file_id_not_found [OF h] by simp
qed

section \<open>Uploads\<close>

text \<open>
  C6. An upload whose extension, as \<open>upload_file\<close> computes it (the text after the last
  dot, in lower case), is none of csv, xlsx, xls is answered with a 400 error, and the state
  (the data store with it) is the one before the request. An upload without a filename is
  answered the same way.
\<close>

theorem unsupported_extension_rejected:
  "(\<forall>fname. filename = Some fname \<longrightarrow> file_extension fname \<notin> {''csv'', ''xlsx'', ''xls''}) \<Longrightarrow>
     \<exists>msg. upload_file e s filename content = (Inl \<lparr>status_code = 400, detail = msg\<rparr>, s)"
  by (cases filename) (auto simp: upload_file_def allowed_extensions_def)

lemma ext_notes_txt: "file_extension ''notes.txt'' = ''txt''"
  by code_simp

theorem unsupported_extension_rejected_witness:
  "file_extension ''notes.txt'' \<notin> {''csv'', ''xlsx'', ''xls''}
     \<and> (\<exists>msg. upload_file (service (Response 200 []) (JObj [])) world (Some ''notes.txt'') ''a,b''
           = (Inl \<lparr>status_code = 400, detail = msg\<rparr>, world))"
proof -
  have h: "\<forall>fname. Some ''notes.txt'' = Some fname \<longrightarrow> file_extension fname \<notin> {''csv'', ''xlsx'', ''xls''}"
    by (simp add: ext_notes_txt)
  show ?thesis
    using unsupported_extension_rejected [OF h] by (simp add: ext_notes_txt)
qed

text \<open>
  C9. When the extension is accepted and the parser raises, \<open>upload_file\<close> answers with a
  500 error carrying the text of the exception, the data store is the one before the
  request, and the uploaded content is on disk under the new identifier.
\<close>

theorem parse_failure_keeps_store:
  "file_extension fname \<in> set allowed_extensions \<Longrightarrow>
   (if file_extension fname = ''csv'' then read_csv e content else read_excel e content) = Inl msg \<Longrightarrow>
     fst (upload_file e s (Some fname) content)
       = Inl \<lparr>status_code = 500,
              detail = ''Error processing file: '' @ str_of e (Other (LibraryError msg))\<rparr>
     \<and> data_store (snd (upload_file e s (Some fname) content)) = data_store s
     \<and> disk (snd (upload_file e s (Some fname) content))
         (UPLOAD_DIR @ ''/'' @ uuid_of e (uuid_count s) @ ''.'' @ file_extension fname)
         = Some (Uploaded content)"
  using allowed_not_empty [of fname]
  by (auto simp: upload_file_def uuid4_def write_file_def Let_def split: if_splits)

lemma ext_book_xlsx: "file_extension ''book.xlsx'' = ''xlsx''"
  by code_simp

theorem parse_failure_keeps_store_witness:
  "fst (upload_file (service (Response 200 []) (JObj [])) world (Some ''book.xlsx'') ''a,b'')
       = Inl \<lparr>status_code = 500, detail = ''Error processing file: File is not a zip file''\<rparr>
     \<and> data_store (snd (upload_file (service (Response 200 []) (JObj [])) world (Some ''book.xlsx'') ''a,b''))
         = data_store world
     \<and> disk (snd (upload_file (service (Response 200 []) (JObj [])) world (Some ''book.xlsx'') ''a,b''))
         ''temp/uploads/d.xlsx'' = Some (Uploaded ''a,b'')"
proof -
  have h1: "file_extension ''book.xlsx'' \<in> set allowed_extensions"
    by (simp add: ext_book_xlsx allowed_extensions_def)
  have h2: "(if file_extension ''book.xlsx'' = ''csv''
             then read_csv (service (Response 200 []) (JObj [])) ''a,b''
             else read_excel (service (Response 200 []) (JObj [])) ''a,b'') = Inl ''File is not a zip file''"
    by (simp add: ext_book_xlsx service_def)
  show ?thesis
    using parse_failure_keeps_store [OF h1 h2, of world]
    by (simp add: ext_book_xlsx service_def describe_exn_def world_def UPLOAD_DIR_def)
qed

lemma upload_accepted:
  "fname \<noteq> [] \<Longrightarrow> file_extension fname \<in> set allowed_extensions \<Longrightarrow>
     fst (upload_file e s (Some fname) content)
       = (case (if file_extension fname = ''csv'' then read_csv e content else read_excel e content) of
            Inl msg \<Rightarrow>
              Inl \<lparr>status_code = 500,
                    detail = ''Error processing file: '' @ str_of e (Other (LibraryError msg))\<rparr>
          | Inr d \<Rightarrow>
              Inr \<lparr>up_file_id = uuid_of e (uuid_count s), up_filename = fname,
                    up_columns = columns_of d, up_preview = take 5 (df_records d)\<rparr>)"
  unfolding upload_file_def uuid4_def Let_def
  by (cases "if file_extension fname = ''csv'' then read_csv e content else read_excel e content")
     simp_all

text \<open>
  C10. For a filename without a dot, \<open>split\<close> returns the filename alone, so the extension
  is the whole filename in lower case. A dotless filename is rejected with a 400 error
  when its lower-case form is none of csv, xlsx, xls, and passes the test when it is one of
  them (the request then ends with the parsed dataset or with the 500 error of the parser).
\<close>

theorem dotless_filename_extension:
  "CHR ''.'' \<notin> set fname \<Longrightarrow>
     file_extension fname = lower fname
     \<and> (lower fname \<notin> {''csv'', ''xlsx'', ''xls''} \<longrightarrow>
          (\<exists>msg. upload_file e s (Some fname) content = (Inl \<lparr>status_code = 400, detail = msg\<rparr>, s)))
     \<and> (lower fname \<in> {''csv'', ''xlsx'', ''xls''} \<longrightarrow>
          (case fst (upload_file e s (Some fname) content) of
             Inl err \<Rightarrow> status_code err = 500
           | Inr r \<Rightarrow> up_filename r = fname \<and> up_file_id r = uuid_of e (uuid_count s)))"
proof -
  assume nodot: "CHR ''.'' \<notin> set fname"
  have ext: "file_extension fname = lower fname"
    using nodot by (rule file_extension_dotless)
  have rej: "lower fname \<notin> {''csv'', ''xlsx'', ''xls''} \<longrightarrow>
          (\<exists>msg. upload_file e s (Some fname) content = (Inl \<lparr>status_code = 400, detail = msg\<rparr>, s))"
    by (auto simp: upload_file_def allowed_extensions_def ext)
  have acc: "lower fname \<in> {''csv'', ''xlsx'', ''xls''} \<longrightarrow>
          (case fst (upload_file e s (Some fname) content) of
             Inl err \<Rightarrow> status_code err = 500
           | Inr r \<Rightarrow> up_filename r = fname \<and> up_file_id r = uuid_of e (uuid_count s))"
  proof
    assume ok: "lower fname \<in> {''csv'', ''xlsx'', ''xls''}"
    then have ne: "fname \<noteq> []"
      by (auto simp: lower_def)
    from ok have al: "file_extension fname \<in> set allowed_extensions"
      by (simp add: ext allowed_extensions_def)
    show "case fst (upload_file e s (Some fname) content) of
             Inl err \<Rightarrow> status_code err = 500
           | Inr r \<Rightarrow> up_filename r = fname \<and> up_file_id r = uuid_of e (uuid_count s)"
      unfolding upload_accepted [OF ne al]
      by (cases "if file_extension fname = ''csv'' then read_csv e content else read_excel e content")
         simp_all
  qed
  from ext rej acc show ?thesis by blast
qed

lemma lower_XLS: "lower ''XLS'' = ''xls''"
  by code_simp

lemma lower_data: "lower ''data'' = ''data''"
  by code_simp

theorem dotless_filename_extension_witness:
  "file_extension ''XLS'' = ''xls''
     \<and> fst (upload_file (service (Response 200 []) (JObj [])) world (Some ''XLS'') ''a,b'')
         = Inl \<lparr>status_code = 500, detail = ''Error processing file: File is not a zip file''\<rparr>
     \<and> file_extension ''data'' = ''data''
     \<and> (\<exists>msg. upload_file (service (Response 200 []) (JObj [])) world (Some ''data'') ''a,b''
           = (Inl \<lparr>status_code = 400, detail = msg\<rparr>, world))"
proof -
  have h1: "CHR ''.'' \<notin> set ''XLS''" by simp
  have h2: "CHR ''.'' \<notin> set ''data''" by simp
  have a: "file_extension ''XLS'' = ''xls''"
    using dotless_filename_extension [OF h1] by (simp add: lower_XLS)
  have b: "fst (upload_file (service (Response 200 []) (JObj [])) world (Some ''XLS'') ''a,b'')
         = Inl \<lparr>status_code = 500, detail = ''Error processing file: File is not a zip file''\<rparr>"
    using upload_accepted [of "''XLS''" "service (Response 200 []) (JObj [])" world "''a,b''"]
    by (simp add: a allowed_extensions_def service_def describe_exn_def)
  have c: "file_extension ''data'' = ''data''
     \<and> (\<exists>msg. upload_file (service (Response 200 []) (JObj [])) world (Some ''data'') ''a,b''
           = (Inl \<lparr>status_code = 400, detail = msg\<rparr>, world))"
    using dotless_filename_extension [OF h2, of "service (Response 200 []) (JObj [])" world "''a,b''"]
    by (simp add: lower_data)
  from a b c show ?thesis by simp
qed

text \<open>
  The file named \<open>CSV\<close> has no dot and is none of the three names, and it is accepted:
  the request ends with the parsed dataset.
\<close>

lemma ext_CSV: "file_extension ''CSV'' = ''csv''"
  by code_simp

theorem dotless_uppercase_counterexample:
  "CHR ''.'' \<notin> set ''CSV''
     \<and> ''CSV'' \<notin> {''csv'', ''xlsx'', ''xls''}
     \<and> fst (upload_file (service (Response 200 []) (JObj [])) world (Some ''CSV'') ''a,b'')
         = Inr \<lparr>up_file_id = ''d'', up_filename = ''CSV'', up_columns = [''city'', ''seen''],
                up_preview = [[Some ''Oslo'', Some ''2020-01-01''], [Some ''Rome'', None]]\<rparr>"
proof -
  have n: "uuid_count world = 0"
    by (simp add: world_def)
  show ?thesis
    using upload_accepted [of "''CSV''" "service (Response 200 []) (JObj [])" world "''a,b''"]
    by (simp add: ext_CSV allowed_extensions_def service_def cities_def columns_of_def n)
qed

section \<open>Explicit charts\<close>

lemma requested_figure_raises:
  "\<not> given y_column \<Longrightarrow> viz_type \<notin> {''bar'', ''histogram'', ''box''} \<Longrightarrow>
     \<exists>h. requested_figure viz_type x_column y_column color_by = Inl (HTTPException h)
          \<and> status_code h = 400"
  unfolding requested_figure_def by simp

text \<open>
  C1. In \<open>create_visualization\<close> the 400 errors for a line or scatter chart without a Y
  column and for an unsupported chart type are raised inside the \<open>try\<close>, whose
  \<open>except Exception\<close> catches them and raises a 500 error in their place: for a stored
  dataset, a present \<open>x_column\<close>, no \<open>y_column\<close> and a type other than bar, histogram and
  box, the answer has status 500 and carries the text of the 400 error that was caught.
\<close>

theorem visualize_raise_becomes_500:
  "data_store s file_id = Some data \<Longrightarrow>
   x_column \<in> set (columns_of (ds_df data)) \<Longrightarrow>
   \<not> given y_column \<Longrightarrow>
   (given color_by \<longrightarrow> the color_by \<in> set (columns_of (ds_df data))) \<Longrightarrow>
   viz_type \<notin> {''bar'', ''histogram'', ''box''} \<Longrightarrow>
     \<exists>h. fst (create_visualization e s file_id viz_type x_column y_column color_by)
            = Inl \<lparr>status_code = 500,
                   detail = ''Error creating visualization: '' @ str_of e (HTTPException h)\<rparr>
          \<and> status_code h = 400"
proof -
  assume d: "data_store s file_id = Some data"
    and x: "x_column \<in> set (columns_of (ds_df data))"
    and y: "\<not> given y_column"
    and c: "given color_by \<longrightarrow> the color_by \<in> set (columns_of (ds_df data))"
    and t: "viz_type \<notin> {''bar'', ''histogram'', ''box''}"
  from requested_figure_raises [OF y t]
  obtain h where h: "requested_figure viz_type x_column y_column color_by = Inl (HTTPException h)"
    and st: "status_code h = 400"
    by blast
  have body: "fst (visualize_body e s viz_type x_column y_column color_by) = Inl (HTTPException h)"
    by (simp add: visualize_body_def uuid4_def h)
  have "fst (create_visualization e s file_id viz_type x_column y_column color_by)
            = Inl \<lparr>status_code = 500,
                   detail = ''Error creating visualization: '' @ str_of e (HTTPException h)\<rparr>"
    using d x y c body
    by (cases "visualize_body e s viz_type x_column y_column color_by")
       (simp add: create_visualization_def)
  with st show ?thesis by blast
qed

theorem visualize_raise_becomes_500_witness:
  "(\<exists>h::http_error. fst (create_visualization (service (Response 200 []) (JObj [])) world ''f1'' ''line'' ''city'' None None)
          = Inl \<lparr>status_code = 500, detail = ''Error creating visualization: '' @ detail h\<rparr>
        \<and> status_code h = 400)
   \<and> (\<exists>h::http_error. fst (create_visualization (service (Response 200 []) (JObj [])) world ''f1'' ''pie'' ''city'' None None)
          = Inl \<lparr>status_code = 500, detail = ''Error creating visualization: '' @ detail h\<rparr>
        \<and> status_code h = 400)"
proof -
  have d: "data_store world ''f1'' = Some (stored ''cities.csv'' cities)"
    by (simp add: world_def)
  have x: "''city'' \<in> set (columns_of (ds_df (stored ''cities.csv'' cities)))"
    by (simp add: stored_def cities_def columns_of_def)
  have y: "\<not> given None"
    by (simp add: given_def)
  have c: "given None \<longrightarrow> the None \<in> set (columns_of (ds_df (stored ''cities.csv'' cities)))"
    by (simp add: given_def)
  have t1: "''line'' \<notin> {''bar'', ''histogram'', ''box''}" by simp
  have t2: "''pie'' \<notin> {''bar'', ''histogram'', ''box''}" by simp
  have s: "str_of (service (Response 200 []) (JObj [])) (HTTPException h) = detail h" for h
    by (simp add: service_def describe_exn_def)
  from visualize_raise_becomes_500 [OF d x y c t1, of "service (Response 200 []) (JObj [])", unfolded s]
    visualize_raise_becomes_500 [OF d x y c t2, of "service (Response 200 []) (JObj [])", unfolded s]
  show ?thesis by (rule conjI)
qed

section \<open>Errors of the completion service\<close>















section \<open>Placeholders of the dashboard\<close>



lemma section_text_object:
  "section_text e (JObj kvs) key placeholder
     = Inr (format_content e (case lookup kvs key of None \<Rightarrow> JStr placeholder | Some v \<Rightarrow> v))"
  by (simp add: section_text_def)


lemma preprocessed_results_absent:
  "lookup kvs ''preprocessed_data_info'' = None \<Longrightarrow> preprocessed_results e (JObj kvs) = Inr None"
  by (simp add: preprocessed_results_def)

lemma preprocessing_warning_object:
  "preprocessing_warning e (JObj kvs)
     = Inr (case lookup kvs ''preprocessing_error'' of None \<Rightarrow> None | Some v \<Rightarrow> Some (fmt e v))"
  by (simp add: preprocessing_warning_def split: option.split)

lemma assemble_dashboard_object:
  "lookup kvs ''preprocessed_data_info'' = None \<Longrightarrow>
     assemble_dashboard e data (JObj kvs) paths
       = Inr \<lparr>dash_filename = ds_filename data,
              dash_rows = n_rows (ds_df data),
              dash_cols = n_cols (ds_df data),
              sec_data_quality = format_content e (case lookup kvs ''data_quality'' of
                  None \<Rightarrow> JStr ''No data quality assessment available'' | Some v \<Rightarrow> v),
              sec_statistics = format_content e (case lookup kvs ''statistics'' of
                  None \<Rightarrow> JStr ''No statistics available'' | Some v \<Rightarrow> v),
              sec_correlations = format_content e (case lookup kvs ''correlations'' of
                  None \<Rightarrow> JStr ''No correlation analysis available'' | Some v \<Rightarrow> v),
              sec_patterns = format_content e (case lookup kvs ''patterns'' of
                  None \<Rightarrow> JStr ''No patterns identified'' | Some v \<Rightarrow> v),
              dash_tiles = paths,
              sec_preprocessing = format_content e (case lookup kvs ''preprocessing'' of
                  None \<Rightarrow> JStr ''No preprocessing recommendations available'' | Some v \<Rightarrow> v),
              dash_preprocessed = None,
              dash_preprocessing_error = (case lookup kvs ''preprocessing_error'' of
                  None \<Rightarrow> None | Some v \<Rightarrow> Some (fmt e v)),
              sec_insights = format_content e (case lookup kvs ''insights'' of
                  None \<Rightarrow> JStr ''No insights available'' | Some v \<Rightarrow> v)\<rparr>"
  by (simp add: assemble_dashboard_def and_then_def section_text_object
        preprocessed_results_absent preprocessing_warning_object)




section \<open>The report\<close>

lemma text_item_accepted: "\<forall>t. pdf_text e t = None \<Longrightarrow> text_item e item t = Inr [item]"
  by (simp add: text_item_def)

lemma add_paragraphs_accepted:
  "\<forall>t. pdf_text e t = None \<Longrightarrow>
     add_paragraphs e ps = Inr (map MultiCell (filter (\<lambda>p. strip p \<noteq> []) ps))"
  by (induction ps) (simp_all add: text_item_accepted)

lemma embed_one_missing: "\<not> path_exists e (disk s) (strip_slash p) \<Longrightarrow> embed_one e s i p = Inr []"
  by (simp add: embed_one_def embed_try_def Let_def)

lemma embed_one_failed:
  "\<forall>t. pdf_text e t = None \<Longrightarrow> path_exists e (disk s) (strip_slash p) \<Longrightarrow>
   pdf_image e (strip_slash p) = Some ex \<Longrightarrow>
     embed_one e s i p
       = Inr [Ln 5, Cell (''Visualization '' @ string_of_nat (i + 1)),
              MultiCell (''Error adding visualization: '' @ str_of e ex)]"
  by (simp add: embed_one_def embed_try_def embed_partial_def text_item_accepted Let_def)

lemma embed_one_embedded:
  "\<forall>t. pdf_text e t = None \<Longrightarrow> path_exists e (disk s) (strip_slash p) \<Longrightarrow>
   pdf_image e (strip_slash p) = None \<Longrightarrow>
     embed_one e s i p
       = Inr [Ln 5, Cell (''Visualization '' @ string_of_nat (i + 1)), PdfImage (strip_slash p), Ln 5]"
  by (simp add: embed_one_def embed_try_def text_item_accepted Let_def)

lemma embed_one_total:
  assumes "\<forall>t. pdf_text e t = None"
  shows "\<exists>items. embed_one e s i p = Inr items"
proof (cases "path_exists e (disk s) (strip_slash p)")
  case False
  then show ?thesis by (simp add: embed_one_missing)
next
  case True
  then show ?thesis
    by (cases "pdf_image e (strip_slash p)")
       (simp_all add: embed_one_failed [OF assms] embed_one_embedded [OF assms])
qed

lemma embed_all_accepted:
  assumes "\<forall>i p. embed_one e s i p = Inr (f i p)"
  shows "embed_all e s i ps = Inr (concat (map (\<lambda>(j, p). f j p) (enumerate i ps)))"
  by (induction ps arbitrary: i) (simp_all add: assms)

lemma report_items_accepted:
  assumes "\<forall>t. pdf_text e t = None"
    and "\<forall>i p. embed_one e s i p = Inr (f i p)"
  shows "report_items e s data analysis_text visualization_paths
           = Inr ([Cell (report_title data), Ln 10, MultiCell ''Analysis:'']
                  @ map MultiCell (filter (\<lambda>p. strip p \<noteq> []) (split_on newline analysis_text))
                  @ (if visualization_paths = [] then []
                     else [Ln 5, Cell ''Visualizations:'']
                          @ concat (map (\<lambda>(j, p). f j p) (enumerate 0 visualization_paths))))"
  by (simp add: report_items_def add_visualizations_def text_item_accepted [OF assms(1)]
        add_paragraphs_accepted [OF assms(1)] embed_all_accepted [OF assms(2)])

lemma generate_report_accepted:
  assumes "data_store s file_id = Some data"
    and "\<forall>items. pdf_output e items = None"
    and "report_items e s data analysis_text visualization_paths = Inr items"
  shows "generate_report e s file_id analysis_text visualization_paths
           = (Inr (output_url (uuid_of e (uuid_count s)) ''.pdf''),
              write_file (output_file (uuid_of e (uuid_count s)) ''.pdf'') (Pdf items)
                (s\<lparr>uuid_count := Suc (uuid_count s)\<rparr>))"
  by (simp add: generate_report_def assms uuid4_def)

text \<open>
  C8, as the code has it. Let the dataset be stored and let the PDF library accept every
  text cell and encode the document. With an empty \<open>visualization_paths\<close>,
  \<open>generate_report\<close> writes a PDF that holds the title, the heading and one cell for each
  non-blank line of the analysis text, and nothing else, and returns its path. In the loop
  over a non-empty list, a path that does not exist adds nothing; a file the library
  cannot embed leaves its caption followed by the note "Error adding visualization: ...";
  a file it can embed leaves caption and image; and the report is always written, holding
  after the heading "Visualizations:" what each path of the list contributed, in order.
\<close>

theorem report_survives_images:
  "data_store s file_id = Some data \<Longrightarrow>
   \<forall>t. pdf_text e t = None \<Longrightarrow>
   \<forall>items. pdf_output e items = None \<Longrightarrow>
     generate_report e s file_id analysis_text []
       = (Inr (output_url (uuid_of e (uuid_count s)) ''.pdf''),
          write_file (output_file (uuid_of e (uuid_count s)) ''.pdf'')
            (Pdf ([Cell (report_title data), Ln 10, MultiCell ''Analysis:'']
                  @ map MultiCell (filter (\<lambda>p. strip p \<noteq> []) (split_on newline analysis_text))))
            (s\<lparr>uuid_count := Suc (uuid_count s)\<rparr>))
     \<and> (\<forall>i p. \<not> path_exists e (disk s) (strip_slash p) \<longrightarrow> embed_one e s i p = Inr [])
     \<and> (\<forall>i p ex. path_exists e (disk s) (strip_slash p) \<longrightarrow> pdf_image e (strip_slash p) = Some ex \<longrightarrow>
           embed_one e s i p
             = Inr [Ln 5, Cell (''Visualization '' @ string_of_nat (i + 1)),
                    MultiCell (''Error adding visualization: '' @ str_of e ex)])
     \<and> (\<forall>i p. path_exists e (disk s) (strip_slash p) \<longrightarrow> pdf_image e (strip_slash p) = None \<longrightarrow>
           embed_one e s i p
             = Inr [Ln 5, Cell (''Visualization '' @ string_of_nat (i + 1)),
                    PdfImage (strip_slash p), Ln 5])
     \<and> (\<exists>f. (\<forall>i p. embed_one e s i p = Inr (f i p))
           \<and> generate_report e s file_id analysis_text visualization_paths
               = (Inr (output_url (uuid_of e (uuid_count s)) ''.pdf''),
                  write_file (output_file (uuid_of e (uuid_count s)) ''.pdf'')
                    (Pdf ([Cell (report_title data), Ln 10, MultiCell ''Analysis:'']
                          @ map MultiCell (filter (\<lambda>p. strip p \<noteq> []) (split_on newline analysis_text))
                          @ (if visualization_paths = [] then []
                             else [Ln 5, Cell ''Visualizations:'']
                                  @ concat (map (\<lambda>(j, p). f j p) (enumerate 0 visualization_paths)))))
                    (s\<lparr>uuid_count := Suc (uuid_count s)\<rparr>)))"
proof -
  assume d: "data_store s file_id = Some data"
    and texts: "\<forall>t. pdf_text e t = None"
    and out: "\<forall>items. pdf_output e items = None"
  from embed_one_total [OF texts]
  have "\<forall>i p. \<exists>items. embed_one e s i p = Inr items"
    by blast
  then obtain f where f: "\<forall>i p. embed_one e s i p = Inr (f i p)"
    by metis
  note items = report_items_accepted [OF texts f]
  have empty: "generate_report e s file_id analysis_text []
       = (Inr (output_url (uuid_of e (uuid_count s)) ''.pdf''),
          write_file (output_file (uuid_of e (uuid_count s)) ''.pdf'')
            (Pdf ([Cell (report_title data), Ln 10, MultiCell ''Analysis:'']
                  @ map MultiCell (filter (\<lambda>p. strip p \<noteq> []) (split_on newline analysis_text))))
            (s\<lparr>uuid_count := Suc (uuid_count s)\<rparr>))"
    using generate_report_accepted [OF d out items [of data analysis_text "[]"]]
    by simp
  have missing: "\<forall>i p. \<not> path_exists e (disk s) (strip_slash p) \<longrightarrow> embed_one e s i p = Inr []"
    by (simp add: embed_one_missing)
  have failed: "\<forall>i p ex. path_exists e (disk s) (strip_slash p) \<longrightarrow> pdf_image e (strip_slash p) = Some ex \<longrightarrow>
           embed_one e s i p
             = Inr [Ln 5, Cell (''Visualization '' @ string_of_nat (i + 1)),
                    MultiCell (''Error adding visualization: '' @ str_of e ex)]"
    using embed_one_failed [OF texts] by blast
  have embedded: "\<forall>i p. path_exists e (disk s) (strip_slash p) \<longrightarrow> pdf_image e (strip_slash p) = None \<longrightarrow>
           embed_one e s i p
             = Inr [Ln 5, Cell (''Visualization '' @ string_of_nat (i + 1)),
                    PdfImage (strip_slash p), Ln 5]"
    using embed_one_embedded [OF texts] by blast
  have whole: "\<exists>f. (\<forall>i p. embed_one e s i p = Inr (f i p))
           \<and> generate_report e s file_id analysis_text visualization_paths
               = (Inr (output_url (uuid_of e (uuid_count s)) ''.pdf''),
                  write_file (output_file (uuid_of e (uuid_count s)) ''.pdf'')
                    (Pdf ([Cell (report_title data), Ln 10, MultiCell ''Analysis:'']
                          @ map MultiCell (filter (\<lambda>p. strip p \<noteq> []) (split_on newline analysis_text))
                          @ (if visualization_paths = [] then []
                             else [Ln 5, Cell ''Visualizations:'']
                                  @ concat (map (\<lambda>(j, p). f j p) (enumerate 0 visualization_paths)))))
                    (s\<lparr>uuid_count := Suc (uuid_count s)\<rparr>))"
    using f generate_report_accepted [OF d out items [of data analysis_text visualization_paths]]
    by (intro exI [of _ f] conjI)
  from empty missing failed embedded whole show ?thesis
    by (intro conjI)
qed

lemma strip_two_cities: "filter (\<lambda>p. strip p \<noteq> []) (split_on newline ''Two cities.'') = [''Two cities.'']"
  by code_simp

lemma two: "string_of_nat (1 + 1) = ''2''"
  by code_simp

theorem report_survives_images_witness:
  "generate_report (service (Response 200 []) (JObj [])) world ''f1'' ''Two cities.'' []
     = (Inr ''/temp/outputs/d.pdf'',
        write_file ''temp/outputs/d.pdf''
          (Pdf [Cell ''Data Analysis Report: cities.csv'', Ln 10, MultiCell ''Analysis:'',
                MultiCell ''Two cities.''])
          (world\<lparr>uuid_count := Suc 0\<rparr>))
   \<and> embed_one (service (Response 200 []) (JObj [])) world 0 ''/temp/outputs/gone.png'' = Inr []
   \<and> embed_one (service (Response 200 []) (JObj [])) world 1 ''/temp/outputs/a.png''
     = Inr [Ln 5, Cell ''Visualization 2'', MultiCell ''Error adding visualization: not a PNG file'']"
proof -
  let ?e = "service (Response 200 []) (JObj [])"
  have texts: "\<forall>t. pdf_text ?e t = None"
    by (simp add: service_def)
  have out: "\<forall>items. pdf_output ?e items = None"
    by (simp add: service_def)
  have u: "uuid_of ?e = (\<lambda>n. replicate n (CHR ''i'') @ ''d'')"
    by (simp add: service_def)
  have sd: "str_of ?e = describe_exn"
    by (simp add: service_def)
  note inst = report_survives_images [OF world_f1 texts out, of "''Two cities.''"]
  have a: "generate_report ?e world ''f1'' ''Two cities.'' []
     = (Inr ''/temp/outputs/d.pdf'',
        write_file ''temp/outputs/d.pdf''
          (Pdf [Cell ''Data Analysis Report: cities.csv'', Ln 10, MultiCell ''Analysis:'',
                MultiCell ''Two cities.''])
          (world\<lparr>uuid_count := Suc 0\<rparr>))"
    using inst [THEN conjunct1, unfolded strip_two_cities u world_count]
    by (simp add: output_url_def output_file_def OUTPUT_DIR_def report_title_def stored_def)
  have g: "\<not> path_exists ?e (disk world) (strip_slash ''/temp/outputs/gone.png'')"
    by (simp add: strip_slash_def world_disk_gone service_def)
  have b: "embed_one ?e world 0 ''/temp/outputs/gone.png'' = Inr []"
    using inst [THEN conjunct2, THEN conjunct1, rule_format, OF g] .
  have p: "path_exists ?e (disk world) (strip_slash ''/temp/outputs/a.png'')"
    by (simp add: strip_slash_def world_disk_a service_def)
  have r: "pdf_image ?e (strip_slash ''/temp/outputs/a.png'') = Some (Other (LibraryError ''not a PNG file''))"
    by (simp add: service_def)
  have c: "embed_one ?e world 1 ''/temp/outputs/a.png''
     = Inr [Ln 5, Cell ''Visualization 2'', MultiCell ''Error adding visualization: not a PNG file'']"
    using inst [THEN conjunct2, THEN conjunct2, THEN conjunct1, rule_format, OF p r, of 1,
        unfolded two sd]
    by (simp add: describe_exn_def)
  from a b c show ?thesis by (intro conjI)
qed

text \<open>
  Without that the report is not written. When the library refuses a text cell (here every one, as a
  core font does with a character outside its encoding), a stored dataset and an empty
  list end in the 500 error and no PDF is written. When it refuses the error note of an
  image that failed to embed, the exception leaves the loop and the request ends in the
  500 error as well.
\<close>

theorem report_needs_library_counterexample:
  "fst (generate_report
          ((service (Response 200 []) (JObj []))
             \<lparr>pdf_text := (\<lambda>t. Some (Other (LibraryError ''latin-1 codec cannot encode'')))\<rparr>)
          world ''f1'' ''Two cities.'' [])
     = Inl \<lparr>status_code = 500, detail = ''Error generating report: latin-1 codec cannot encode''\<rparr>
   \<and> disk (snd (generate_report
          ((service (Response 200 []) (JObj []))
             \<lparr>pdf_text := (\<lambda>t. Some (Other (LibraryError ''latin-1 codec cannot encode'')))\<rparr>)
          world ''f1'' ''Two cities.'' [])) ''temp/outputs/d.pdf'' = None
   \<and> fst (generate_report
          ((service (Response 200 []) (JObj []))
             \<lparr>pdf_text := (\<lambda>t. if startswith t ''Error adding''
                               then Some (Other (LibraryError ''latin-1 codec cannot encode''))
                               else None)\<rparr>)
          world ''f1'' ''Two cities.'' [''/temp/outputs/a.png'', ''/temp/outputs/gone.png''])
     = Inl \<lparr>status_code = 500, detail = ''Error generating report: latin-1 codec cannot encode''\<rparr>"
  by code_simp

section \<open>What the handler of auto-analyze returns\<close>



lemma requested_slots_list:
  "lookup kvs ''visualizations'' = Some (JList slots) \<Longrightarrow> requested_slots (JObj kvs) = Inr slots"
  by (simp add: requested_slots_def)

lemma returned_analysis_object: "\<exists>summary. returned_analysis (JObj kvs) = Inr summary"
  by (simp add: returned_analysis_def and_then_def)



lemma auto_reply_object:
  assumes "lookup kvs ''preprocessed_data_info'' = None"
    and "requested_slots (JObj kvs) = Inr slots"
    and "process_slots e file_id 0 slots ([], s, ds_df data) = (paths1, s1, d1)"
    and "add_default_visualizations e d1 (paths1, s1) = (paths2, s2)"
  shows "\<exists>r s5 page.
           auto_reply e s file_id data (JObj kvs) = (Inr r, s5)
           \<and> visualizations r = paths2
           \<and> disk s5 = (disk s2)(output_file (uuid_of e (uuid_count s2)) ''.html'' \<mapsto> Html page)"
proof -
  obtain summary where su: "returned_analysis (JObj kvs) = Inr summary"
    using returned_analysis_object by blast
  obtain page where pg: "assemble_dashboard e (data\<lparr>ds_df := d1\<rparr>) (JObj kvs) paths2 = Inr page"
    by (simp add: assemble_dashboard_object [OF assms(1)])
  let ?id = "uuid_of e (uuid_count s2)"
  let ?s4 = "write_file (output_file ?id ''.html'') (Html page) (s2\<lparr>uuid_count := Suc (uuid_count s2)\<rparr>)"
  let ?s5 = "?s4\<lparr>data_store := (data_store ?s4)(file_id \<mapsto>
               data\<lparr>ds_df := d1, ds_dashboard := Some (output_url ?id ''.html'')\<rparr>)\<rparr>"
  let ?r = "\<lparr>dashboard_url = output_url ?id ''.html'', analysis = summary, visualizations = paths2\<rparr>"
  have run: "auto_reply e s file_id data (JObj kvs) = (Inr ?r, ?s5)"
    by (simp add: auto_reply_def assms(2) assms(3) assms(4) Let_def uuid4_def su pg)
  have v: "visualizations ?r = paths2"
    by simp
  have k: "disk ?s5 = (disk s2)(output_file ?id ''.html'' \<mapsto> Html page)"
    by (simp add: write_file_def)
  from run v k show ?thesis
    by blast
qed

lemma auto_analyze_object:
  assumes "data_store s file_id = Some data"
    and "call_completion e (AutoPrompt (ds_df data)) = Inr (JObj kvs)"
    and "lookup kvs ''preprocessed_data_info'' = None"
    and "requested_slots (JObj kvs) = Inr slots"
    and "process_slots e file_id 0 slots ([], s, ds_df data) = (paths1, s1, d1)"
    and "add_default_visualizations e d1 (paths1, s1) = (paths2, s2)"
  shows "\<exists>r s5 page.
           auto_analyze_data e s file_id = (Inr r, s5)
           \<and> visualizations r = paths2
           \<and> disk s5 = (disk s2)(output_file (uuid_of e (uuid_count s2)) ''.html'' \<mapsto> Html page)"
proof -
  from auto_reply_object [OF assms(3) assms(4) assms(5) assms(6)]
  obtain r s5 page where run: "auto_reply e s file_id data (JObj kvs) = (Inr r, s5)"
    and v: "visualizations r = paths2"
    and k: "disk s5 = (disk s2)(output_file (uuid_of e (uuid_count s2)) ''.html'' \<mapsto> Html page)"
    by blast
  have "auto_analyze_data e s file_id = (Inr r, s5)"
    by (simp add: auto_analyze_data_def assms(1) auto_body_def assms(2) run)
  with v k show ?thesis by blast
qed

lemma add_default_kept: "paths \<noteq> [] \<Longrightarrow> add_default_visualizations e d (paths, s) = (paths, s)"
  by (simp add: add_default_visualizations_def)

lemma process_slots_last:
  "process_slots e file_id i (xs @ [x]) acc
     = process_slot e file_id (i + length xs) x (process_slots e file_id i xs acc)"
  by (induction xs arbitrary: i acc) simp_all

section \<open>Canned code for the first two slots\<close>

lemma slot_code_object:
  "slot_code (JObj kvs)
     = Inr (case lookup kvs ''code'' of None \<Rightarrow> None | Some v \<Rightarrow> if truthy v then Some v else None)"
  by (simp add: slot_code_def split: option.split)

lemma needs_default_short:
  assumes "case lookup kvs ''code'' of
             None \<Rightarrow> True
           | Some v \<Rightarrow> \<not> truthy v \<or> (\<exists>c. v = JStr c \<and> length (strip c) < 10)"
  shows "needs_default (case lookup kvs ''code'' of None \<Rightarrow> None
                        | Some v \<Rightarrow> if truthy v then Some v else None) = Inr True"
proof (cases "lookup kvs ''code''")
  case None
  then show ?thesis by (simp add: needs_default_def)
next
  case (Some v)
  with assms show ?thesis by (auto simp: needs_default_def)
qed

lemma prepare_slot_short:
  assumes "case lookup kvs ''code'' of
             None \<Rightarrow> True
           | Some v \<Rightarrow> \<not> truthy v \<or> (\<exists>c. v = JStr c \<and> length (strip c) < 10)"
  shows "prepare_slot i d (JObj kvs)
           = substitute_default i d (JObj kvs)
               (case lookup kvs ''code'' of None \<Rightarrow> None
                | Some v \<Rightarrow> if truthy v then Some v else None)"
  by (simp add: prepare_slot_def slot_code_object needs_default_short [OF assms])

lemma hist_code_text:
  "hist_code c
     = ''\<newline>import seaborn as sns\<newline>plt.figure(figsize=(10, 6))\<newline>sns.histplot(df[''
       @ [CHR 0x27] @ c @ [CHR 0x27] @ ''], kde=True)\<newline>plt.title(''
       @ [CHR 0x27] @ ''Distribution of '' @ c @ [CHR 0x27] @ '')\<newline>plt.xlabel(''
       @ [CHR 0x27] @ c @ [CHR 0x27] @ '')\<newline>plt.ylabel(''
       @ [CHR 0x27] @ ''Count'' @ [CHR 0x27] @ '')\<newline>plt.tight_layout()\<newline>''"
  by (simp add: hist_code_def squote_def)

lemma heatmap_code_text:
  "heatmap_code
     = ''\<newline>import seaborn as sns\<newline>plt.figure(figsize=(12, 10))\<newline>corr = df.select_dtypes(include=[''
       @ [CHR 0x27] @ ''number'' @ [CHR 0x27]
       @ '']).corr()\<newline>mask = np.triu(np.ones_like(corr, dtype=bool))\<newline>sns.heatmap(corr, mask=mask, annot=True, cmap=''
       @ [CHR 0x27] @ ''coolwarm'' @ [CHR 0x27] @ '', fmt='' @ [CHR 0x27] @ ''.2f'' @ [CHR 0x27]
       @ '', linewidths=0.5)\<newline>plt.title('' @ [CHR 0x27] @ ''Correlation Heatmap'' @ [CHR 0x27]
       @ '')\<newline>plt.tight_layout()\<newline>''"
  by (simp add: heatmap_code_def squote_def)

lemma hist_code_plt: "str_contains (hist_code c) ''plt''"
  by (simp add: hist_code_def)

lemma heatmap_code_plt: "str_contains heatmap_code ''plt''"
  by (simp add: heatmap_code_def)

lemma canned_code_truthy: "truthy (JStr (hist_code c))" "truthy (JStr heatmap_code)"
  by (simp_all add: hist_code_def heatmap_code_def)

lemma slot_try_short:
  assumes "case lookup kvs ''code'' of
             None \<Rightarrow> True
           | Some v \<Rightarrow> \<not> truthy v \<or> (\<exists>c. v = JStr c \<and> length (strip c) < 10)"
  shows "slot_try e file_id d i (JObj kvs) paths s
           = (case substitute_default i d (JObj kvs)
                     (case lookup kvs ''code'' of None \<Rightarrow> None
                      | Some v \<Rightarrow> if truthy v then Some v else None) of
                Inl err \<Rightarrow> (Some (Other err), paths, s, d)
              | Inr (code1, item1) \<Rightarrow>
                  (case code1 of
                     None \<Rightarrow> (None, paths, s, d)
                   | Some v \<Rightarrow>
                       if \<not> truthy v then (None, paths, s, d)
                       else execute_slot e file_id d i item1 v paths s))"
  by (simp add: slot_try_def prepare_slot_short [OF assms])

lemma save_tile_object:
  "render e fig (output_file vis_id ''.png'') = None \<Longrightarrow>
     save_tile e fig vis_id i (JObj kvs) paths s
       = (None,
          paths @ [tile vis_id (case lookup kvs ''title'' of None \<Rightarrow> JStr (slot_name i) | Some t \<Rightarrow> t)
                     (case lookup kvs ''description'' of None \<Rightarrow> JStr [] | Some t \<Rightarrow> t)],
          write_file (output_file vis_id ''.png'') (Image fig) s)"
  by (simp add: save_tile_def Let_def)

lemma execute_slot_pyplot:
  assumes "exec_code e code d = (Namespace True has_fig, d1)"
    and "str_contains code ''plt''"
    and "render e (PyplotFigure code) (output_file (uuid_of e (uuid_count s)) ''.png'') = None"
  shows "execute_slot e file_id d i (JObj kvs) (JStr code) paths s
           = (None,
              paths @ [tile (uuid_of e (uuid_count s))
                         (case lookup kvs ''title'' of None \<Rightarrow> JStr (slot_name i) | Some t \<Rightarrow> t)
                         (case lookup kvs ''description'' of None \<Rightarrow> JStr [] | Some t \<Rightarrow> t)],
              write_file (output_file (uuid_of e (uuid_count s)) ''.png'') (Image (PyplotFigure code))
                ((mutate_df file_id d1 s)\<lparr>uuid_count := Suc (uuid_count s)\<rparr>),
              d1)"
proof -
  have n: "uuid_count (mutate_df file_id d1 s) = uuid_count s"
    by (simp add: mutate_df_def)
  show ?thesis
    by (simp add: execute_slot_def assms uuid4_def n save_tile_object)
qed

lemma lookup_canned:
  "lookup (kvs @ [(''title'', t), (''description'', ds)]) ''title'' = Some t"
  "lookup (kvs @ [(''title'', t), (''description'', ds)]) ''description'' = Some ds"
  by (simp_all add: lookup_def)

lemma process_slot_done:
  "slot_try e file_id d i viz_item paths s = (None, paths1, s1, d1) \<Longrightarrow>
     process_slot e file_id i viz_item (paths, s, d) = (paths1, s1, d1)"
  by (simp add: process_slot_def)

text \<open>
  C4, as the code has it. Take a slot whose item is a JSON object and whose code is absent,
  falsy, or a string of fewer than 10 characters once stripped. In slot 0 of a dataset with
  a numeric column the \<open>try\<close> of the slot executes the histogram fragment for the first
  numeric column in place of the code, and in slot 1 of a dataset with at least two numeric
  columns the heatmap fragment, the item carrying the title and the description of the
  canned chart; the two fragments are the texts below. In every other case nothing is
  substituted: the slot executes its own code if it has any and nothing otherwise. When
  the canned fragment ends with \<open>plt\<close> still bound and the figure is saved, the slot adds
  one entry with the canned title and description and the picture of that fragment. The
  slots of the list are processed in order, each under its position as index, and for a
  stored dataset and a reply that is an object without \<open>preprocessed_data_info\<close> the
  handler returns the entries the slots produced, or the default pictures when they
  produced none.
\<close>

theorem default_code_substituted:
  "(case lookup kvs ''code'' of
      None \<Rightarrow> True
    | Some v \<Rightarrow> \<not> truthy v \<or> (\<exists>c. v = JStr c \<and> length (strip c) < 10)) \<Longrightarrow>
     (\<forall>c cs. i = 0 \<and> numeric_columns d = c # cs \<longrightarrow>
        slot_try e file_id d i (JObj kvs) paths s
          = execute_slot e file_id d i
              (JObj (kvs @ [(''title'', JStr (''Distribution of '' @ c)),
                            (''description'',
                             JStr (''Histogram showing the distribution of '' @ c @ '' values''))]))
              (JStr (hist_code c)) paths s)
     \<and> (i = 1 \<and> 1 < length (numeric_columns d) \<longrightarrow>
        slot_try e file_id d i (JObj kvs) paths s
          = execute_slot e file_id d i
              (JObj (kvs @ [(''title'', JStr ''Correlation Heatmap''),
                            (''description'',
                             JStr ''Heatmap showing correlations between numeric variables'')]))
              (JStr heatmap_code) paths s)
     \<and> (\<not> (i = 0 \<and> numeric_columns d \<noteq> []) \<and> \<not> (i = 1 \<and> 1 < length (numeric_columns d)) \<longrightarrow>
        slot_try e file_id d i (JObj kvs) paths s
          = (case lookup kvs ''code'' of
               None \<Rightarrow> (None, paths, s, d)
             | Some v \<Rightarrow>
                 if truthy v then execute_slot e file_id d i (JObj kvs) v paths s
                 else (None, paths, s, d)))
     \<and> (\<forall>c. hist_code c
          = ''\<newline>import seaborn as sns\<newline>plt.figure(figsize=(10, 6))\<newline>sns.histplot(df[''
            @ [CHR 0x27] @ c @ [CHR 0x27] @ ''], kde=True)\<newline>plt.title(''
            @ [CHR 0x27] @ ''Distribution of '' @ c @ [CHR 0x27] @ '')\<newline>plt.xlabel(''
            @ [CHR 0x27] @ c @ [CHR 0x27] @ '')\<newline>plt.ylabel(''
            @ [CHR 0x27] @ ''Count'' @ [CHR 0x27] @ '')\<newline>plt.tight_layout()\<newline>'')
     \<and> heatmap_code
          = ''\<newline>import seaborn as sns\<newline>plt.figure(figsize=(12, 10))\<newline>corr = df.select_dtypes(include=[''
            @ [CHR 0x27] @ ''number'' @ [CHR 0x27]
            @ '']).corr()\<newline>mask = np.triu(np.ones_like(corr, dtype=bool))\<newline>sns.heatmap(corr, mask=mask, annot=True, cmap=''
            @ [CHR 0x27] @ ''coolwarm'' @ [CHR 0x27] @ '', fmt='' @ [CHR 0x27] @ ''.2f'' @ [CHR 0x27]
            @ '', linewidths=0.5)\<newline>plt.title('' @ [CHR 0x27] @ ''Correlation Heatmap'' @ [CHR 0x27]
            @ '')\<newline>plt.tight_layout()\<newline>''
     \<and> (\<forall>c cs has_fig d1.
           i = 0 \<and> numeric_columns d = c # cs \<longrightarrow>
           exec_code e (hist_code c) d = (Namespace True has_fig, d1) \<longrightarrow>
           render e (PyplotFigure (hist_code c)) (output_file (uuid_of e (uuid_count s)) ''.png'') = None \<longrightarrow>
             process_slot e file_id i (JObj kvs) (paths, s, d)
               = (paths @ [tile (uuid_of e (uuid_count s)) (JStr (''Distribution of '' @ c))
                             (JStr (''Histogram showing the distribution of '' @ c @ '' values''))],
                  write_file (output_file (uuid_of e (uuid_count s)) ''.png'')
                    (Image (PyplotFigure (hist_code c)))
                    ((mutate_df file_id d1 s)\<lparr>uuid_count := Suc (uuid_count s)\<rparr>),
                  d1))
     \<and> (\<forall>has_fig d1.
           i = 1 \<and> 1 < length (numeric_columns d) \<longrightarrow>
           exec_code e heatmap_code d = (Namespace True has_fig, d1) \<longrightarrow>
           render e (PyplotFigure heatmap_code) (output_file (uuid_of e (uuid_count s)) ''.png'') = None \<longrightarrow>
             process_slot e file_id i (JObj kvs) (paths, s, d)
               = (paths @ [tile (uuid_of e (uuid_count s)) (JStr ''Correlation Heatmap'')
                             (JStr ''Heatmap showing correlations between numeric variables'')],
                  write_file (output_file (uuid_of e (uuid_count s)) ''.png'')
                    (Image (PyplotFigure heatmap_code))
                    ((mutate_df file_id d1 s)\<lparr>uuid_count := Suc (uuid_count s)\<rparr>),
                  d1))
     \<and> (\<forall>xs x acc. process_slots e file_id 0 (xs @ [x]) acc
           = process_slot e file_id (length xs) x (process_slots e file_id 0 xs acc))
     \<and> (\<forall>s0 data reply slots paths1 s1 d1.
           data_store s0 file_id = Some data \<longrightarrow>
           call_completion e (AutoPrompt (ds_df data)) = Inr (JObj reply) \<longrightarrow>
           lookup reply ''preprocessed_data_info'' = None \<longrightarrow>
           lookup reply ''visualizations'' = Some (JList slots) \<longrightarrow>
           process_slots e file_id 0 slots ([], s0, ds_df data) = (paths1, s1, d1) \<longrightarrow>
             (\<exists>r s5. auto_analyze_data e s0 file_id = (Inr r, s5)
                \<and> visualizations r = fst (add_default_visualizations e d1 (paths1, s1))
                \<and> (paths1 \<noteq> [] \<longrightarrow> visualizations r = paths1)))"
proof -
  assume short: "case lookup kvs ''code'' of
      None \<Rightarrow> True
    | Some v \<Rightarrow> \<not> truthy v \<or> (\<exists>c. v = JStr c \<and> length (strip c) < 10)"
  note t = slot_try_short [OF short]
  have first: "\<forall>c cs. i = 0 \<and> numeric_columns d = c # cs \<longrightarrow>
        slot_try e file_id d i (JObj kvs) paths s
          = execute_slot e file_id d i
              (JObj (kvs @ [(''title'', JStr (''Distribution of '' @ c)),
                            (''description'',
                             JStr (''Histogram showing the distribution of '' @ c @ '' values''))]))
              (JStr (hist_code c)) paths s"
    by (simp add: t substitute_default_def canned_code_truthy [simplified])
  have second: "i = 1 \<and> 1 < length (numeric_columns d) \<longrightarrow>
        slot_try e file_id d i (JObj kvs) paths s
          = execute_slot e file_id d i
              (JObj (kvs @ [(''title'', JStr ''Correlation Heatmap''),
                            (''description'',
                             JStr ''Heatmap showing correlations between numeric variables'')]))
              (JStr heatmap_code) paths s"
    by (simp add: t substitute_default_def canned_code_truthy [simplified])
  have other: "\<not> (i = 0 \<and> numeric_columns d \<noteq> []) \<and> \<not> (i = 1 \<and> 1 < length (numeric_columns d)) \<longrightarrow>
        slot_try e file_id d i (JObj kvs) paths s
          = (case lookup kvs ''code'' of
               None \<Rightarrow> (None, paths, s, d)
             | Some v \<Rightarrow>
                 if truthy v then execute_slot e file_id d i (JObj kvs) v paths s
                 else (None, paths, s, d))"
    by (cases "numeric_columns d"; cases "lookup kvs ''code''")
       (auto simp: t substitute_default_def)
  have hist: "\<forall>c cs has_fig d1.
           i = 0 \<and> numeric_columns d = c # cs \<longrightarrow>
           exec_code e (hist_code c) d = (Namespace True has_fig, d1) \<longrightarrow>
           render e (PyplotFigure (hist_code c)) (output_file (uuid_of e (uuid_count s)) ''.png'') = None \<longrightarrow>
             process_slot e file_id i (JObj kvs) (paths, s, d)
               = (paths @ [tile (uuid_of e (uuid_count s)) (JStr (''Distribution of '' @ c))
                             (JStr (''Histogram showing the distribution of '' @ c @ '' values''))],
                  write_file (output_file (uuid_of e (uuid_count s)) ''.png'')
                    (Image (PyplotFigure (hist_code c)))
                    ((mutate_df file_id d1 s)\<lparr>uuid_count := Suc (uuid_count s)\<rparr>),
                  d1)"
  proof (intro allI impI)
    fix c cs has_fig d1
    assume shape: "i = 0 \<and> numeric_columns d = c # cs"
      and ran: "exec_code e (hist_code c) d = (Namespace True has_fig, d1)"
      and drawn: "render e (PyplotFigure (hist_code c)) (output_file (uuid_of e (uuid_count s)) ''.png'') = None"
    from first shape have "slot_try e file_id d i (JObj kvs) paths s
          = execute_slot e file_id d i
              (JObj (kvs @ [(''title'', JStr (''Distribution of '' @ c)),
                            (''description'',
                             JStr (''Histogram showing the distribution of '' @ c @ '' values''))]))
              (JStr (hist_code c)) paths s"
      by blast
    also have "\<dots> = (None,
                  paths @ [tile (uuid_of e (uuid_count s)) (JStr (''Distribution of '' @ c))
                             (JStr (''Histogram showing the distribution of '' @ c @ '' values''))],
                  write_file (output_file (uuid_of e (uuid_count s)) ''.png'')
                    (Image (PyplotFigure (hist_code c)))
                    ((mutate_df file_id d1 s)\<lparr>uuid_count := Suc (uuid_count s)\<rparr>),
                  d1)"
      by (simp add: execute_slot_pyplot [OF ran hist_code_plt drawn] lookup_canned)
    finally show "process_slot e file_id i (JObj kvs) (paths, s, d)
               = (paths @ [tile (uuid_of e (uuid_count s)) (JStr (''Distribution of '' @ c))
                             (JStr (''Histogram showing the distribution of '' @ c @ '' values''))],
                  write_file (output_file (uuid_of e (uuid_count s)) ''.png'')
                    (Image (PyplotFigure (hist_code c)))
                    ((mutate_df file_id d1 s)\<lparr>uuid_count := Suc (uuid_count s)\<rparr>),
                  d1)"
      by (rule process_slot_done)
  qed
  have heat: "\<forall>has_fig d1.
           i = 1 \<and> 1 < length (numeric_columns d) \<longrightarrow>
           exec_code e heatmap_code d = (Namespace True has_fig, d1) \<longrightarrow>
           render e (PyplotFigure heatmap_code) (output_file (uuid_of e (uuid_count s)) ''.png'') = None \<longrightarrow>
             process_slot e file_id i (JObj kvs) (paths, s, d)
               = (paths @ [tile (uuid_of e (uuid_count s)) (JStr ''Correlation Heatmap'')
                             (JStr ''Heatmap showing correlations between numeric variables'')],
                  write_file (output_file (uuid_of e (uuid_count s)) ''.png'')
                    (Image (PyplotFigure heatmap_code))
                    ((mutate_df file_id d1 s)\<lparr>uuid_count := Suc (uuid_count s)\<rparr>),
                  d1)"
  proof (intro allI impI)
    fix has_fig d1
    assume shape: "i = 1 \<and> 1 < length (numeric_columns d)"
      and ran: "exec_code e heatmap_code d = (Namespace True has_fig, d1)"
      and drawn: "render e (PyplotFigure heatmap_code) (output_file (uuid_of e (uuid_count s)) ''.png'') = None"
    from second shape have "slot_try e file_id d i (JObj kvs) paths s
          = execute_slot e file_id d i
              (JObj (kvs @ [(''title'', JStr ''Correlation Heatmap''),
                            (''description'',
                             JStr ''Heatmap showing correlations between numeric variables'')]))
              (JStr heatmap_code) paths s"
      by blast
    also have "\<dots> = (None,
                  paths @ [tile (uuid_of e (uuid_count s)) (JStr ''Correlation Heatmap'')
                             (JStr ''Heatmap showing correlations between numeric variables'')],
                  write_file (output_file (uuid_of e (uuid_count s)) ''.png'')
                    (Image (PyplotFigure heatmap_code))
                    ((mutate_df file_id d1 s)\<lparr>uuid_count := Suc (uuid_count s)\<rparr>),
                  d1)"
      by (simp add: execute_slot_pyplot [OF ran heatmap_code_plt drawn] lookup_canned)
    finally show "process_slot e file_id i (JObj kvs) (paths, s, d)
               = (paths @ [tile (uuid_of e (uuid_count s)) (JStr ''Correlation Heatmap'')
                             (JStr ''Heatmap showing correlations between numeric variables'')],
                  write_file (output_file (uuid_of e (uuid_count s)) ''.png'')
                    (Image (PyplotFigure heatmap_code))
                    ((mutate_df file_id d1 s)\<lparr>uuid_count := Suc (uuid_count s)\<rparr>),
                  d1)"
      by (rule process_slot_done)
  qed
  have order: "\<forall>xs x acc. process_slots e file_id 0 (xs @ [x]) acc
           = process_slot e file_id (length xs) x (process_slots e file_id 0 xs acc)"
    by (simp add: process_slots_last)
  have handler: "\<forall>s0 data reply slots paths1 s1 d1.
           data_store s0 file_id = Some data \<longrightarrow>
           call_completion e (AutoPrompt (ds_df data)) = Inr (JObj reply) \<longrightarrow>
           lookup reply ''preprocessed_data_info'' = None \<longrightarrow>
           lookup reply ''visualizations'' = Some (JList slots) \<longrightarrow>
           process_slots e file_id 0 slots ([], s0, ds_df data) = (paths1, s1, d1) \<longrightarrow>
             (\<exists>r s5. auto_analyze_data e s0 file_id = (Inr r, s5)
                \<and> visualizations r = fst (add_default_visualizations e d1 (paths1, s1))
                \<and> (paths1 \<noteq> [] \<longrightarrow> visualizations r = paths1))"
  proof (intro allI impI)
    fix s0 data reply slots paths1 s1 d1
    assume d: "data_store s0 file_id = Some data"
      and reply: "call_completion e (AutoPrompt (ds_df data)) = Inr (JObj reply)"
      and noinfo: "lookup reply ''preprocessed_data_info'' = None"
      and viz: "lookup reply ''visualizations'' = Some (JList slots)"
      and ran: "process_slots e file_id 0 slots ([], s0, ds_df data) = (paths1, s1, d1)"
    obtain paths2 s2 where dflt: "add_default_visualizations e d1 (paths1, s1) = (paths2, s2)"
      by (cases "add_default_visualizations e d1 (paths1, s1)")
    from auto_analyze_object [OF d reply noinfo requested_slots_list [OF viz] ran dflt]
    obtain r s5 where run: "auto_analyze_data e s0 file_id = (Inr r, s5)"
      and v: "visualizations r = paths2"
      by blast
    have v1: "visualizations r = fst (add_default_visualizations e d1 (paths1, s1))"
      by (simp add: v dflt)
    have v2: "paths1 \<noteq> [] \<longrightarrow> visualizations r = paths1"
      by (simp add: v1 add_default_kept)
    from run v1 v2 show "\<exists>r s5. auto_analyze_data e s0 file_id = (Inr r, s5)
                \<and> visualizations r = fst (add_default_visualizations e d1 (paths1, s1))
                \<and> (paths1 \<noteq> [] \<longrightarrow> visualizations r = paths1)"
      by blast
  qed
  have htext: "\<forall>c. hist_code c
          = ''\<newline>import seaborn as sns\<newline>plt.figure(figsize=(10, 6))\<newline>sns.histplot(df[''
            @ [CHR 0x27] @ c @ [CHR 0x27] @ ''], kde=True)\<newline>plt.title(''
            @ [CHR 0x27] @ ''Distribution of '' @ c @ [CHR 0x27] @ '')\<newline>plt.xlabel(''
            @ [CHR 0x27] @ c @ [CHR 0x27] @ '')\<newline>plt.ylabel(''
            @ [CHR 0x27] @ ''Count'' @ [CHR 0x27] @ '')\<newline>plt.tight_layout()\<newline>''"
    using hist_code_text by blast
  from first second other htext heatmap_code_text hist heat order handler
  show ?thesis
    by (intro conjI)
qed

lemma strip_short: "length (strip ''  fig  '') < 10"
  by code_simp

theorem default_code_substituted_witness:
  "process_slot
       (service (Response 200 [])
          (JObj [(''visualizations'', JList [JObj [(''title'', JStr ''Sizes''), (''code'', JStr ''  fig  '')]])]))
       ''f2'' 0 (JObj [(''title'', JStr ''Sizes''), (''code'', JStr ''  fig  '')]) ([], world, sizes)
     = ([tile ''d'' (JStr ''Distribution of height'')
           (JStr ''Histogram showing the distribution of height values'')],
        write_file ''temp/outputs/d.png'' (Image (PyplotFigure (hist_code ''height'')))
          ((mutate_df ''f2'' sizes world)\<lparr>uuid_count := Suc 0\<rparr>),
        sizes)
   \<and> process_slot
       (service (Response 200 [])
          (JObj [(''visualizations'', JList [JObj [(''title'', JStr ''Sizes''), (''code'', JStr ''  fig  '')]])]))
       ''f2'' 1 (JObj [(''title'', JStr ''Sizes''), (''code'', JStr ''  fig  '')]) ([], world, sizes)
     = ([tile ''d'' (JStr ''Correlation Heatmap'')
           (JStr ''Heatmap showing correlations between numeric variables'')],
        write_file ''temp/outputs/d.png'' (Image (PyplotFigure heatmap_code))
          ((mutate_df ''f2'' sizes world)\<lparr>uuid_count := Suc 0\<rparr>),
        sizes)
   \<and> slot_try
       (service (Response 200 [])
          (JObj [(''visualizations'', JList [JObj [(''title'', JStr ''Sizes''), (''code'', JStr ''  fig  '')]])]))
       ''f1'' cities 0 (JObj [(''title'', JStr ''Sizes''), (''code'', JStr ''  fig  '')]) [] world
     = execute_slot
         (service (Response 200 [])
            (JObj [(''visualizations'', JList [JObj [(''title'', JStr ''Sizes''), (''code'', JStr ''  fig  '')]])]))
         ''f1'' cities 0 (JObj [(''title'', JStr ''Sizes''), (''code'', JStr ''  fig  '')])
         (JStr ''  fig  '') [] world
   \<and> (\<exists>r s5. auto_analyze_data
                 (service (Response 200 [])
                    (JObj [(''visualizations'',
                            JList [JObj [(''title'', JStr ''Sizes''), (''code'', JStr ''  fig  '')]])]))
                 world ''f2'' = (Inr r, s5)
          \<and> visualizations r
              = [tile ''d'' (JStr ''Distribution of height'')
                   (JStr ''Histogram showing the distribution of height values'')])"
proof -
  let ?kvs = "[(''title'', JStr ''Sizes''), (''code'', JStr ''  fig  '')]"
  let ?reply = "[(''visualizations'', JList [JObj ?kvs])]"
  let ?e = "service (Response 200 []) (JObj ?reply)"
  have l: "lookup ?kvs ''code'' = Some (JStr ''  fig  '')"
    by (simp add: lookup_def)
  have short: "case lookup ?kvs ''code'' of
      None \<Rightarrow> True
    | Some v \<Rightarrow> \<not> truthy v \<or> (\<exists>c. v = JStr c \<and> length (strip c) < 10)"
    by (simp add: l strip_short)
  have ran: "exec_code ?e code d = (Namespace True False, d)" for code d
    by (simp add: service_def)
  have drawn: "render ?e fig p = None" for fig p
    by (simp add: service_def)
  have ident: "uuid_of ?e 0 = ''d''"
    by (simp add: service_def)
  have shape0: "0 = (0::nat) \<and> numeric_columns sizes = ''height'' # [''width'']"
    by (simp add: numeric_sizes)
  have shape1: "1 = (1::nat) \<and> 1 < length (numeric_columns sizes)"
    by (simp add: numeric_sizes)
  note sizes_inst = default_code_substituted [OF short, where e = ?e and file_id = "''f2''"
      and d = sizes and paths = "[]" and s = world]
  have a: "process_slot ?e ''f2'' 0 (JObj ?kvs) ([], world, sizes)
     = ([tile ''d'' (JStr ''Distribution of height'')
           (JStr ''Histogram showing the distribution of height values'')],
        write_file ''temp/outputs/d.png'' (Image (PyplotFigure (hist_code ''height'')))
          ((mutate_df ''f2'' sizes world)\<lparr>uuid_count := Suc 0\<rparr>),
        sizes)"
    using sizes_inst [where i = 0, THEN conjunct2, THEN conjunct2, THEN conjunct2, THEN conjunct2,
        THEN conjunct2, THEN conjunct1, rule_format, OF shape0 ran drawn]
    by (simp add: ident first_output world_count)
  have b: "process_slot ?e ''f2'' 1 (JObj ?kvs) ([], world, sizes)
     = ([tile ''d'' (JStr ''Correlation Heatmap'')
           (JStr ''Heatmap showing correlations between numeric variables'')],
        write_file ''temp/outputs/d.png'' (Image (PyplotFigure heatmap_code))
          ((mutate_df ''f2'' sizes world)\<lparr>uuid_count := Suc 0\<rparr>),
        sizes)"
    using sizes_inst [where i = 1, THEN conjunct2, THEN conjunct2, THEN conjunct2, THEN conjunct2,
        THEN conjunct2, THEN conjunct2, THEN conjunct1, rule_format, OF shape1 ran drawn]
    by (simp add: ident first_output world_count)
  have noshape: "\<not> (0 = (0::nat) \<and> numeric_columns cities \<noteq> [])
                 \<and> \<not> (0 = (1::nat) \<and> 1 < length (numeric_columns cities))"
    by (simp add: numeric_cities)
  have c: "slot_try ?e ''f1'' cities 0 (JObj ?kvs) [] world
     = execute_slot ?e ''f1'' cities 0 (JObj ?kvs) (JStr ''  fig  '') [] world"
    using default_code_substituted [OF short, where e = ?e and file_id = "''f1''"
      and d = cities and paths = "[]" and s = world and i = 0,
      THEN conjunct2, THEN conjunct2, THEN conjunct1, rule_format, OF noshape]
    by (simp add: l)
  have reply: "call_completion ?e (AutoPrompt (ds_df (stored ''sizes.csv'' sizes))) = Inr (JObj ?reply)"
    by (simp add: call_completion_def service_def is_success_def)
  have noinfo: "lookup ?reply ''preprocessed_data_info'' = None"
    by (simp add: lookup_def)
  have viz: "lookup ?reply ''visualizations'' = Some (JList [JObj ?kvs])"
    by (simp add: lookup_def)
  have df: "ds_df (stored ''sizes.csv'' sizes) = sizes"
    by (simp add: stored_def)
  have slots: "process_slots ?e ''f2'' 0 [JObj ?kvs] ([], world, ds_df (stored ''sizes.csv'' sizes))
     = ([tile ''d'' (JStr ''Distribution of height'')
           (JStr ''Histogram showing the distribution of height values'')],
        write_file ''temp/outputs/d.png'' (Image (PyplotFigure (hist_code ''height'')))
          ((mutate_df ''f2'' sizes world)\<lparr>uuid_count := Suc 0\<rparr>),
        sizes)"
    by (simp add: df a)
  have h: "\<exists>r s5. auto_analyze_data ?e world ''f2'' = (Inr r, s5)
          \<and> visualizations r
              = [tile ''d'' (JStr ''Distribution of height'')
                   (JStr ''Histogram showing the distribution of height values'')]"
    using sizes_inst [where i = 0, THEN conjunct2, THEN conjunct2, THEN conjunct2, THEN conjunct2,
        THEN conjunct2, THEN conjunct2, THEN conjunct2, THEN conjunct2, rule_format,
        OF world_f2 reply noinfo viz slots]
    by auto
  from a b c h show ?thesis
    by (intro conjI)
qed

text \<open>
  A slot that is not an object gets no canned code. The reply
  \<open>{"visualizations": [[]]}\<close> on the dataset with two numeric columns: the first slot is
  an empty list, its code is absent, and the entry it adds is the picture of the error,
  not the histogram.
\<close>

theorem default_code_counterexample:
  "numeric_columns sizes = [''height'', ''width'']
   \<and> (case fst (auto_analyze_data
                  (service (Response 200 []) (JObj [(''visualizations'', JList [JList []])]))
                  world ''f2'') of
        Inl err \<Rightarrow> False
      | Inr r \<Rightarrow>
          visualizations r
            = [\<lparr>tile_path = ''/temp/outputs/d.png'', tile_title = JStr ''Error in Visualization 1'',
                tile_description = JStr ''Error: error''\<rparr>])
   \<and> disk (snd (auto_analyze_data
                  (service (Response 200 []) (JObj [(''visualizations'', JList [JList []])]))
                  world ''f2''))
         ''temp/outputs/d.png''
       = Some (Image (ErrorText ''Error generating visualization:\<newline>error''))
   \<and> slot_try (service (Response 200 []) (JObj [])) ''f2'' sizes 0 JNull [] world
       = (Some (Other TypeError), [], world, sizes)"
proof -
  have a: "numeric_columns sizes = [''height'', ''width'']"
    by (rule numeric_sizes)
  have b: "case fst (auto_analyze_data
                  (service (Response 200 []) (JObj [(''visualizations'', JList [JList []])]))
                  world ''f2'') of
        Inl err \<Rightarrow> False
      | Inr r \<Rightarrow>
          visualizations r
            = [\<lparr>tile_path = ''/temp/outputs/d.png'', tile_title = JStr ''Error in Visualization 1'',
                tile_description = JStr ''Error: error''\<rparr>]"
    by code_simp
  have c: "disk (snd (auto_analyze_data
                  (service (Response 200 []) (JObj [(''visualizations'', JList [JList []])]))
                  world ''f2''))
         ''temp/outputs/d.png''
       = Some (Image (ErrorText ''Error generating visualization:\<newline>error''))"
    by code_simp
  have d: "slot_try (service (Response 200 []) (JObj [])) ''f2'' sizes 0 JNull [] world
       = (Some (Other TypeError), [], world, sizes)"
    by (simp add: slot_try_def prepare_slot_def slot_code_def)
  from a b c d show ?thesis
    by (intro conjI)
qed

section \<open>Datasets without numeric columns\<close>





















end
